theory Spec2Isabelle
  imports Main
begin

section \<open>Dates\<close>

text \<open>
  A JavaScript \<open>Date\<close> is a time value: a number of milliseconds. The handlers only
  use the local-time methods \<open>getDay\<close>, \<open>getDate\<close>, \<open>getMonth\<close>, \<open>getFullYear\<close>,
  \<open>setDate\<close>, \<open>setMonth\<close>, the constructor \<open>new Date(year, month, day)\<close> and the
  comparison of time values. They are defined here as ECMAScript defines them
  (Day, TimeWithinDay, DayFromYear, YearFromTime, MonthFromTime, DateFromTime, WeekDay,
  MakeDay, MakeDate), for a valid date in a time zone with a fixed offset, so that a
  time value of the model is the local time in milliseconds since 1970-01-01T00:00 local.
\<close>

type_synonym date = int

definition msPerDay :: int where
  "msPerDay = 86400000"

definition Day :: "date \<Rightarrow> int" where
  "Day t = t div msPerDay"

definition TimeWithinDay :: "date \<Rightarrow> int" where
  "TimeWithinDay t = t mod msPerDay"

definition DaysInYear :: "int \<Rightarrow> int" where
  "DaysInYear y =
     (if y mod 4 \<noteq> 0 then 365
      else if y mod 100 \<noteq> 0 then 366
      else if y mod 400 \<noteq> 0 then 365
      else 366)"

definition DayFromYear :: "int \<Rightarrow> int" where
  "DayFromYear y =
     365 * (y - 1970) + (y - 1969) div 4 - (y - 1901) div 100 + (y - 1601) div 400"

text \<open>
  ECMAScript: the year \<open>y\<close> with \<open>DayFromYear y \<le> d < DayFromYear (y + 1)\<close>. It is
  computed from the mean length of a year and corrected by one year at most;
  \<open>YearFromDay_lower\<close> and \<open>YearFromDay_upper\<close> below prove the two bounds.
\<close>

definition YearFromDay :: "int \<Rightarrow> int" where
  "YearFromDay d =
     (let y = 1970 + (400 * d) div 146097 in
      if d < DayFromYear y then y - 1
      else if DayFromYear (y + 1) \<le> d then y + 1
      else y)"

definition YearFromTime :: "date \<Rightarrow> int" where
  "YearFromTime t = YearFromDay (Day t)"

definition InLeapYear :: "date \<Rightarrow> int" where
  "InLeapYear t = (if DaysInYear (YearFromTime t) = 366 then 1 else 0)"

definition DayWithinYear :: "date \<Rightarrow> int" where
  "DayWithinYear t = Day t - DayFromYear (YearFromTime t)"

text \<open>The month (0 = January) of a day within the year; \<open>leap\<close> is 1 in a leap year.\<close>

definition MonthFromDayWithinYear :: "int \<Rightarrow> int \<Rightarrow> int" where
  "MonthFromDayWithinYear dwy leap =
     (if dwy < 31 then 0
      else if dwy < 59 + leap then 1
      else if dwy < 90 + leap then 2
      else if dwy < 120 + leap then 3
      else if dwy < 151 + leap then 4
      else if dwy < 181 + leap then 5
      else if dwy < 212 + leap then 6
      else if dwy < 243 + leap then 7
      else if dwy < 273 + leap then 8
      else if dwy < 304 + leap then 9
      else if dwy < 334 + leap then 10
      else 11)"

text \<open>The day within the year on which month \<open>m\<close> (0 to 11) starts.\<close>

definition MonthStart :: "int \<Rightarrow> int \<Rightarrow> int" where
  "MonthStart m leap =
     (if m = 0 then 0
      else if m = 1 then 31
      else if m = 2 then 59 + leap
      else if m = 3 then 90 + leap
      else if m = 4 then 120 + leap
      else if m = 5 then 151 + leap
      else if m = 6 then 181 + leap
      else if m = 7 then 212 + leap
      else if m = 8 then 243 + leap
      else if m = 9 then 273 + leap
      else if m = 10 then 304 + leap
      else 334 + leap)"

definition MonthFromTime :: "date \<Rightarrow> int" where
  "MonthFromTime t = MonthFromDayWithinYear (DayWithinYear t) (InLeapYear t)"

definition DateFromTime :: "date \<Rightarrow> int" where
  "DateFromTime t = DayWithinYear t - MonthStart (MonthFromTime t) (InLeapYear t) + 1"

definition WeekDay :: "date \<Rightarrow> int" where
  "WeekDay t = (Day t + 4) mod 7"

text \<open>
  MakeDay: the day number of the first of month \<open>month mod 12\<close> in year
  \<open>year + month div 12\<close>, plus \<open>date - 1\<close>. A month or a date out of range carries over.
\<close>

definition MakeDay :: "int \<Rightarrow> int \<Rightarrow> int \<Rightarrow> int" where
  "MakeDay year month dt =
     (let ym = year + month div 12;
          mn = month mod 12
      in DayFromYear ym + MonthStart mn (if DaysInYear ym = 366 then 1 else 0) + dt - 1)"

definition MakeDate :: "int \<Rightarrow> int \<Rightarrow> date" where
  "MakeDate day time = day * msPerDay + time"

definition getDay :: "date \<Rightarrow> int" where
  "getDay t = WeekDay t"

definition getDate :: "date \<Rightarrow> int" where
  "getDate t = DateFromTime t"

definition getMonth :: "date \<Rightarrow> int" where
  "getMonth t = MonthFromTime t"

definition getFullYear :: "date \<Rightarrow> int" where
  "getFullYear t = YearFromTime t"

definition setDate :: "date \<Rightarrow> int \<Rightarrow> date" where
  "setDate t dt = MakeDate (MakeDay (YearFromTime t) (MonthFromTime t) dt) (TimeWithinDay t)"

definition setMonth :: "date \<Rightarrow> int \<Rightarrow> date" where
  "setMonth t month =
     MakeDate (MakeDay (YearFromTime t) month (DateFromTime t)) (TimeWithinDay t)"

text \<open>
  \<open>new Date(year, month, day)\<close>: local midnight of that day. A year from 0 to 99 is
  read as 1900 + year.
\<close>

definition new_Date :: "int \<Rightarrow> int \<Rightarrow> int \<Rightarrow> date" where
  "new_Date year month dt =
     (let yr = (if 0 \<le> year \<and> year \<le> 99 then 1900 + year else year)
      in MakeDate (MakeDay yr month dt) 0)"

subsection \<open>The date functions of \<open>handle_retry.ts\<close>\<close>

text \<open>
  \<open>(5 - dayOfWeek + 7) % 7 || 7\<close>: the operand of \<open>%\<close> is between 6 and 12, where the
  remainder of JavaScript is \<open>mod\<close>; \<open>||\<close> replaces 0 by 7.
\<close>

definition getNextFriday :: "date \<Rightarrow> date" where
  "getNextFriday from =
     (let date = from;
          dayOfWeek = getDay date;
          r = (5 - dayOfWeek + 7) mod 7;
          daysUntilFriday = (if r = 0 then 7 else r)
      in setDate date (getDate date + daysUntilFriday))"

definition getLastFridayOfMonthForDate :: "int \<Rightarrow> int \<Rightarrow> date" where
  "getLastFridayOfMonthForDate year month =
     (let date = new_Date year (month + 1) 0;
          dayOfWeek = getDay date;
          daysToSubtract = (dayOfWeek + 2) mod 7
      in setDate date (getDate date - daysToSubtract))"

definition getLastFridayOfMonth :: "date \<Rightarrow> date" where
  "getLastFridayOfMonth from =
     (let lastFridayThisMonth = getLastFridayOfMonthForDate (getFullYear from) (getMonth from)
      in if lastFridayThisMonth \<le> from
         then (let nextMonth = setMonth from (getMonth from + 1)
               in getLastFridayOfMonthForDate (getFullYear nextMonth) (getMonth nextMonth))
         else lastFridayThisMonth)"

datatype schedule_type = friday | friday_eom

definition getScheduledDate :: "schedule_type \<Rightarrow> date option \<Rightarrow> date \<Rightarrow> date" where
  "getScheduledDate type balanceDueDate from =
     (let fridayDate = (if type = friday then getNextFriday from else getLastFridayOfMonth from)
      in case balanceDueDate of
           None \<Rightarrow> fridayDate
         | Some due \<Rightarrow>
             if due \<le> from then fridayDate
             else if fridayDate < due then fridayDate else due)"

text \<open>
  Months counted from year 0 (index \<open>12 * year + month\<close>): the day number of the first
  of a month, and the month a time value lies in. Both are used to state the calendar
  facts below; the handlers do not call them.
\<close>

definition FirstDayOfMonth :: "int \<Rightarrow> int" where
  "FirstDayOfMonth i = MakeDay 0 i 1"

definition MonthIndex :: "date \<Rightarrow> int" where
  "MonthIndex t = 12 * YearFromTime t + MonthFromTime t"

section \<open>Records, errors and the stores\<close>

type_synonym ident = string

text \<open>
  The Prisma enums (\<open>PaymentStatus\<close>, \<open>PaymentType\<close>, \<open>PaymentDirectionType\<close>,
  \<open>PaymentTrack\<close>, \<open>PaymentMethodStatus\<close>) are string constants at run time; the model
  keeps the strings, so that it names no member beyond those the handlers use.
\<close>

abbreviation FAILED :: string where "FAILED \<equiv> ''FAILED''"
abbreviation SCHEDULED :: string where "SCHEDULED \<equiv> ''SCHEDULED''"
abbreviation SUBSCRIPTION :: string where "SUBSCRIPTION \<equiv> ''SUBSCRIPTION''"
abbreviation ACCOUNT_RECEIVABLE :: string where "ACCOUNT_RECEIVABLE \<equiv> ''ACCOUNT_RECEIVABLE''"
abbreviation ANY_CARD :: string where "ANY_CARD \<equiv> ''ANY_CARD''"
abbreviation BANK_CARD :: string where "BANK_CARD \<equiv> ''BANK_CARD''"
abbreviation INVALID :: string where "INVALID \<equiv> ''INVALID''"

text \<open>
  \<open>Result.fail\<close> is \<open>Inl\<close>, \<open>Result.success\<close> is \<open>Inr\<close>. An error keeps its class and its
  message (\<open>new ServerInternalError(new Error(msg))\<close>, \<open>new DatabaseError(e, msg)\<close>).
\<close>

datatype ApplicationError = ServerInternalError string | DatabaseError string

type_synonym 'a Result = "ApplicationError + 'a"

datatype TimeBucket = B_0_30D | B_31_60D | B_61_180D | B_181D_plus

datatype RetryAction = instant | scheduled_friday | scheduled_friday_eom | backoff | not_possible

record retry_trace =
  original_payment_id :: ident
  original_code :: "int option"
  retry_reason :: string
  retry_timestamp :: date
  scheduled_date :: date
  time_bucket :: TimeBucket
  trace_days_overdue :: int

text \<open>
  The fields of \<open>Payment\<close> that the two handlers read or write. \<open>payment_id\<close>,
  \<open>payment_code\<close>, \<open>payment_type\<close> and \<open>payment_date\<close> are the fields \<open>id\<close>, \<open>code\<close>,
  \<open>type\<close> and \<open>date\<close>; \<open>cycle_days_overdue\<close> is the field \<open>days_overdue\<close> of a billing cycle.
\<close>

record Payment =
  payment_id :: ident
  status :: string
  payment_code :: "int option"
  direction :: "string option"
  track :: "string option"
  payment_type :: "string option"
  payment_date :: date
  amount :: int
  account_id :: ident
  payment_method_id :: "ident option"
  payment_method_processor_id :: "ident option"
  subscription_id :: "ident option"
  billing_cycle_id :: "ident option"
  retry_routing_ctx :: "string list"
  retry_sequence_nb :: int
  retry_prev_payment_id :: "ident option"
  retry_annotation :: "string option"
  retry_trace_data :: "retry_trace option"
  retry_logic_version :: "int option"
  memo :: "string option"
  fail_reason :: "string option"

record BillingCycle =
  cycle_id :: ident
  end_date :: date
  cycle_days_overdue :: "int option"

record CustomerAccount =
  customer_account_id :: ident
  balance_due_date :: "date option"
  last_failed_payment_amount :: "int option"
  last_failed_payment_date :: "date option"

record PaymentMethod =
  method_id :: ident
  method_status :: string
  method_memo :: "string option"

text \<open>
  What a handler tells its collaborators besides the database: the logger calls, and
  \<open>SendAlert\<close>, the call of the alerting collaborator.
\<close>

datatype notification = Info string | Warn string | Error string | SendAlert string

text \<open>
  The world a handler runs in: the tables of the database, the clock (\<open>new Date()\<close>),
  what was logged, and \<open>db_faults\<close>, which decides the database calls that throw: every
  call takes the head of the list and throws when it is \<open>True\<close>; on the empty list no
  call throws.
\<close>

record world =
  payments :: "Payment list"
  payment_methods :: "PaymentMethod list"
  accounts :: "CustomerAccount list"
  billing_cycles :: "BillingCycle list"
  db_faults :: "bool list"
  now :: date
  logged :: "notification list"

definition logger :: "notification \<Rightarrow> world \<Rightarrow> world" where
  "logger n w = w\<lparr>logged := logged w @ [n]\<rparr>"

definition db_call :: "world \<Rightarrow> bool \<times> world" where
  "db_call w = (case db_faults w of [] \<Rightarrow> (False, w) | f # fs \<Rightarrow> (f, w\<lparr>db_faults := fs\<rparr>))"

text \<open>JavaScript truthiness of a nullable string: neither \<open>null\<close> nor empty.\<close>

definition truthy :: "string option \<Rightarrow> bool" where
  "truthy s = (case s of None \<Rightarrow> False | Some v \<Rightarrow> v \<noteq> [])"

text \<open>Template literals print a number in decimal.\<close>

fun string_of_nat :: "nat \<Rightarrow> string" where
  "string_of_nat n =
     (if n < 10 then [''0123456789'' ! n]
      else string_of_nat (n div 10) @ [''0123456789'' ! (n mod 10)])"

declare string_of_nat.simps [simp del]

definition string_of_int :: "int \<Rightarrow> string" where
  "string_of_int i = (if i < 0 then ''-'' @ string_of_nat (nat (- i)) else string_of_nat (nat i))"

subsection \<open>\<open>model/Payment.ts\<close>\<close>

text \<open>
  \<open>Payment.create\<close>: the database gives the new row its identifier (a counter stands
  for the generated key) and stores it; a database error becomes \<open>Result.fail\<close>.
\<close>

definition new_payment_id :: "world \<Rightarrow> ident" where
  "new_payment_id w = ''payment-'' @ string_of_nat (length (payments w))"

definition Payment_create :: "Payment \<Rightarrow> world \<Rightarrow> Payment Result \<times> world" where
  "Payment_create input w =
     (case db_call w of
        (True, w1) \<Rightarrow> (Inl (DatabaseError ''Failed to create payment''), w1)
      | (False, w1) \<Rightarrow>
          (let payment = input\<lparr>payment_id := new_payment_id w1\<rparr>
           in (Inr payment, w1\<lparr>payments := payments w1 @ [payment]\<rparr>)))"

text \<open>
  \<open>Payment.update\<close>: \<open>input\<close> is the change to the row. Prisma throws when no row has the
  identifier.
\<close>

definition Payment_update ::
  "ident \<Rightarrow> (Payment \<Rightarrow> Payment) \<Rightarrow> world \<Rightarrow> Payment Result \<times> world" where
  "Payment_update i input w =
     (case db_call w of
        (True, w1) \<Rightarrow> (Inl (DatabaseError ''Failed to update payment''), w1)
      | (False, w1) \<Rightarrow>
          (case find (\<lambda>p. payment_id p = i) (payments w1) of
             None \<Rightarrow> (Inl (DatabaseError ''Failed to update payment''), w1)
           | Some p \<Rightarrow>
               (Inr (input p),
                w1\<lparr>payments := map (\<lambda>q. if payment_id q = i then input q else q) (payments w1)\<rparr>)))"

subsection \<open>The other models\<close>

text \<open>
  Modelled from the spec: \<open>BillingCycle.fetch_by_id\<close> and \<open>BillingCycle.update\<close>
  (\<open>model/BillingCycle\<close> is not among the sources). The billing-cycle collaborator gives
  the days overdue of an obligation; the functions have the shape of \<open>Payment.fetch_by_id\<close>
  and \<open>Payment.update\<close>: the row or \<open>null\<close>, and a failure for a database error.
\<close>

definition BillingCycle_fetch_by_id :: "ident \<Rightarrow> world \<Rightarrow> BillingCycle option Result \<times> world" where
  "BillingCycle_fetch_by_id i w =
     (case db_call w of
        (True, w1) \<Rightarrow> (Inl (DatabaseError ''Failed to fetch billing cycle''), w1)
      | (False, w1) \<Rightarrow> (Inr (find (\<lambda>b. cycle_id b = i) (billing_cycles w1)), w1))"

definition BillingCycle_update ::
  "ident \<Rightarrow> (BillingCycle \<Rightarrow> BillingCycle) \<Rightarrow> world \<Rightarrow> BillingCycle Result \<times> world" where
  "BillingCycle_update i input w =
     (case db_call w of
        (True, w1) \<Rightarrow> (Inl (DatabaseError ''Failed to update billing cycle''), w1)
      | (False, w1) \<Rightarrow>
          (case find (\<lambda>b. cycle_id b = i) (billing_cycles w1) of
             None \<Rightarrow> (Inl (DatabaseError ''Failed to update billing cycle''), w1)
           | Some b \<Rightarrow>
               (Inr (input b),
                w1\<lparr>billing_cycles :=
                     map (\<lambda>q. if cycle_id q = i then input q else q) (billing_cycles w1)\<rparr>)))"

text \<open>
  Modelled from the spec: \<open>CustomerAccount.fetch_by_id\<close> and \<open>CustomerAccount.update\<close>
  (\<open>model/CustomerAccount\<close> is not among the sources). The account collaborator gives the
  balance-due date of an account, or \<open>null\<close>.
\<close>

definition CustomerAccount_fetch_by_id ::
  "ident \<Rightarrow> world \<Rightarrow> CustomerAccount option Result \<times> world" where
  "CustomerAccount_fetch_by_id i w =
     (case db_call w of
        (True, w1) \<Rightarrow> (Inl (DatabaseError ''Failed to fetch customer account''), w1)
      | (False, w1) \<Rightarrow> (Inr (find (\<lambda>a. customer_account_id a = i) (accounts w1)), w1))"

definition CustomerAccount_update ::
  "ident \<Rightarrow> (CustomerAccount \<Rightarrow> CustomerAccount) \<Rightarrow> world \<Rightarrow> CustomerAccount Result \<times> world" where
  "CustomerAccount_update i input w =
     (case db_call w of
        (True, w1) \<Rightarrow> (Inl (DatabaseError ''Failed to update customer account''), w1)
      | (False, w1) \<Rightarrow>
          (case find (\<lambda>a. customer_account_id a = i) (accounts w1) of
             None \<Rightarrow> (Inl (DatabaseError ''Failed to update customer account''), w1)
           | Some a \<Rightarrow>
               (Inr (input a),
                w1\<lparr>accounts :=
                     map (\<lambda>q. if customer_account_id q = i then input q else q) (accounts w1)\<rparr>)))"

text \<open>
  Modelled from the spec: \<open>PaymentMethod.update\<close> (\<open>model/PaymentMethod\<close> is not among the
  sources), a persistence collaborator of the same shape.
\<close>

definition PaymentMethod_update ::
  "ident \<Rightarrow> (PaymentMethod \<Rightarrow> PaymentMethod) \<Rightarrow> world \<Rightarrow> PaymentMethod Result \<times> world" where
  "PaymentMethod_update i input w =
     (case db_call w of
        (True, w1) \<Rightarrow> (Inl (DatabaseError ''Failed to update payment method''), w1)
      | (False, w1) \<Rightarrow>
          (case find (\<lambda>m. method_id m = i) (payment_methods w1) of
             None \<Rightarrow> (Inl (DatabaseError ''Failed to update payment method''), w1)
           | Some m \<Rightarrow>
               (Inr (input m),
                w1\<lparr>payment_methods :=
                     map (\<lambda>q. if method_id q = i then input q else q) (payment_methods w1)\<rparr>)))"

section \<open>\<open>handle_retry.ts\<close>\<close>

definition RETRY_LOGIC_VERSION :: int where
  "RETRY_LOGIC_VERSION = 1"

definition NOT_POSSIBLE_CODES :: "int list" where
  "NOT_POSSIBLE_CODES = [442, 443, 444, 445, 613, 615, 616, 640, 710]"

text \<open>
  \<open>retryStrategy\<close>: for a time bucket, the codes of each action. The fields are the keys
  \<open>instant\<close>, \<open>scheduled_friday\<close>, \<open>scheduled_friday_eom\<close> and \<open>backoff\<close> of the source.
\<close>

record strategy =
  instant_codes :: "int list"
  scheduled_friday_codes :: "int list"
  scheduled_friday_eom_codes :: "int list"
  backoff_codes :: "int list"

fun retryStrategy :: "TimeBucket \<Rightarrow> strategy" where
  "retryStrategy B_0_30D =
     \<lparr>instant_codes = [904],
      scheduled_friday_codes = [441, 701, 706],
      scheduled_friday_eom_codes = [601],
      backoff_codes = [903, 440, 603, 604, 605, 606, 607, 777]\<rparr>"
| "retryStrategy B_31_60D =
     \<lparr>instant_codes = [904],
      scheduled_friday_codes = [441, 701, 706],
      scheduled_friday_eom_codes = [601],
      backoff_codes = [903, 440, 603, 604, 605, 606, 607, 777]\<rparr>"
| "retryStrategy B_61_180D =
     \<lparr>instant_codes = [904],
      scheduled_friday_codes = [],
      scheduled_friday_eom_codes = [441, 701, 706],
      backoff_codes = [903, 440, 601, 603, 604, 605, 606, 607, 777]\<rparr>"
| "retryStrategy B_181D_plus =
     \<lparr>instant_codes = [],
      scheduled_friday_codes = [],
      scheduled_friday_eom_codes = [],
      backoff_codes = [904, 903, 440, 441, 601, 701, 706, 603, 604, 605, 606, 607, 777]\<rparr>"

definition getTimeBucket :: "int \<Rightarrow> TimeBucket" where
  "getTimeBucket days_overdue =
     (if days_overdue \<le> 30 then B_0_30D
      else if days_overdue \<le> 60 then B_31_60D
      else if days_overdue \<le> 180 then B_61_180D
      else B_181D_plus)"

definition getRetryAction :: "int \<Rightarrow> TimeBucket \<Rightarrow> RetryAction option" where
  "getRetryAction code timeBucket =
     (if code \<in> set NOT_POSSIBLE_CODES then Some not_possible
      else let strategy = retryStrategy timeBucket in
        if code \<in> set (instant_codes strategy) then Some instant
        else if code \<in> set (scheduled_friday_codes strategy) then Some scheduled_friday
        else if code \<in> set (scheduled_friday_eom_codes strategy) then Some scheduled_friday_eom
        else if code \<in> set (backoff_codes strategy) then Some backoff
        else None)"

text \<open>The strings of the template literals.\<close>

fun time_bucket_name :: "TimeBucket \<Rightarrow> string" where
  "time_bucket_name B_0_30D = ''0-30D''"
| "time_bucket_name B_31_60D = ''31-60D''"
| "time_bucket_name B_61_180D = ''61-180D''"
| "time_bucket_name B_181D_plus = ''181D+''"

fun action_name :: "RetryAction \<Rightarrow> string" where
  "action_name instant = ''instant''"
| "action_name scheduled_friday = ''scheduled_friday''"
| "action_name scheduled_friday_eom = ''scheduled_friday_eom''"
| "action_name backoff = ''backoff''"
| "action_name not_possible = ''not_possible''"

definition no_strategy_message :: "int \<Rightarrow> TimeBucket \<Rightarrow> string" where
  "no_strategy_message code timeBucket =
     ''No retry strategy for code '' @ string_of_int code @ '' in bucket ''
       @ time_bucket_name timeBucket"

definition not_possible_message :: "int \<Rightarrow> string" where
  "not_possible_message code =
     ''Retry not possible for code '' @ string_of_int code
       @ '' - this is an EFT failure that cannot be retried''"

text \<open>
  \<open>handle_retry\<close> is modelled in parts, in the order of the source: the action (the
  local variable \<open>action\<close> after the special condition of the 61-180D bucket); for an
  action that is neither \<open>backoff\<close> nor \<open>not_possible\<close>, the balance-due date, the
  retry date, the track, the routing context and the creation of the retry payment; and
  the function itself.
\<close>

definition CODES_WITH_RETRY_LIMIT_12 :: "int list" where
  "CODES_WITH_RETRY_LIMIT_12 = [441, 701, 706]"

definition CODES_WITH_STRIPE_EXCLUSION :: "int list" where
  "CODES_WITH_STRIPE_EXCLUSION = [904, 441, 601, 701, 706]"

definition resolve_action :: "int \<Rightarrow> TimeBucket \<Rightarrow> int \<Rightarrow> RetryAction option" where
  "resolve_action code timeBucket retry_cnt =
     (let action = getRetryAction code timeBucket in
      if timeBucket = B_61_180D \<and> code \<in> set CODES_WITH_RETRY_LIMIT_12 \<and> retry_cnt > 12
      then Some backoff
      else action)"

definition fetch_balance_due_date ::
  "Payment \<Rightarrow> RetryAction \<Rightarrow> world \<Rightarrow> date option \<times> world" where
  "fetch_balance_due_date payment action w =
     (if action = scheduled_friday \<or> action = scheduled_friday_eom
      then (case CustomerAccount_fetch_by_id (account_id payment) w of
              (Inr (Some account), w') \<Rightarrow> (balance_due_date account, w')
            | (_, w') \<Rightarrow> (None, w'))
      else (None, w))"

text \<open>\<open>retryDate\<close> and \<open>retryReason\<close>; \<open>today\<close> is \<open>new Date()\<close>.\<close>

definition retry_date :: "RetryAction \<Rightarrow> date option \<Rightarrow> date \<Rightarrow> date \<times> string" where
  "retry_date action balanceDueDate today =
     (if action = instant then (today, ''instant_retry'')
      else if action = scheduled_friday
        then (getScheduledDate friday balanceDueDate today, ''scheduled_friday_or_balance_due'')
        else (getScheduledDate friday_eom balanceDueDate today,
              ''scheduled_friday_eom_or_balance_due''))"

definition retryTrack :: "int \<Rightarrow> string" where
  "retryTrack code = (if code = 904 then ANY_CARD else BANK_CARD)"

definition retryRoutingCtx :: "Payment \<Rightarrow> int \<Rightarrow> TimeBucket \<Rightarrow> string list" where
  "retryRoutingCtx payment code timeBucket =
     (if timeBucket = B_31_60D \<and> code \<in> set CODES_WITH_STRIPE_EXCLUSION
         \<and> retry_sequence_nb payment > 8
      then retry_routing_ctx payment @ [''exclude_stripe'']
      else retry_routing_ctx payment)"

text \<open>
  The argument of \<open>Payment.create\<close>. The database sets \<open>id\<close>; \<open>code\<close> and \<open>fail_reason\<close>
  are not given and stay \<open>null\<close>.
\<close>

definition retry_payment_input ::
  "Payment \<Rightarrow> int \<Rightarrow> ident \<Rightarrow> int \<Rightarrow> TimeBucket \<Rightarrow> RetryAction \<Rightarrow> date \<times> string \<Rightarrow> date
     \<Rightarrow> Payment" where
  "retry_payment_input payment code cycle days_overdue timeBucket action retry today =
     \<lparr>payment_id = [],
      status = SCHEDULED,
      payment_code = None,
      direction = Some (case direction payment of None \<Rightarrow> ACCOUNT_RECEIVABLE | Some d \<Rightarrow> d),
      track = Some (retryTrack code),
      payment_type = Some (case payment_type payment of None \<Rightarrow> SUBSCRIPTION | Some t \<Rightarrow> t),
      payment_date = fst retry,
      amount = amount payment,
      account_id = account_id payment,
      payment_method_id =
        (if truthy (payment_method_id payment) then payment_method_id payment else None),
      payment_method_processor_id =
        (if truthy (payment_method_processor_id payment)
         then payment_method_processor_id payment else None),
      subscription_id =
        (if truthy (subscription_id payment) then subscription_id payment else None),
      billing_cycle_id = Some cycle,
      retry_routing_ctx = retryRoutingCtx payment code timeBucket,
      retry_sequence_nb = retry_sequence_nb payment + 1,
      retry_prev_payment_id = Some (payment_id payment),
      retry_annotation = Some (action_name action @ '' retry of payment '' @ payment_id payment),
      retry_trace_data =
        Some \<lparr>original_payment_id = payment_id payment,
              original_code = payment_code payment,
              retry_reason = snd retry,
              retry_timestamp = today,
              scheduled_date = fst retry,
              time_bucket = timeBucket,
              trace_days_overdue = days_overdue\<rparr>,
      retry_logic_version = Some RETRY_LOGIC_VERSION,
      memo =
        Some (''Retry attempt #'' @ string_of_int (retry_sequence_nb payment + 1)
               @ '' for original payment''),
      fail_reason = None\<rparr>"

definition create_retry_payment ::
  "Payment \<Rightarrow> int \<Rightarrow> ident \<Rightarrow> int \<Rightarrow> TimeBucket \<Rightarrow> RetryAction \<Rightarrow> world
     \<Rightarrow> Payment Result \<times> world" where
  "create_retry_payment payment code cycle days_overdue timeBucket action w =
     (case fetch_balance_due_date payment action w of
        (balanceDueDate, w1) \<Rightarrow>
          (case Payment_create
                  (retry_payment_input payment code cycle days_overdue timeBucket action
                     (retry_date action balanceDueDate (now w1)) (now w1)) w1 of
             (Inl e, w2) \<Rightarrow> (Inl (ServerInternalError ''Failed to create retry payment''), w2)
           | (Inr retryPayment, w2) \<Rightarrow> (Inr retryPayment, w2)))"

definition handle_retry :: "Payment \<Rightarrow> world \<Rightarrow> Payment Result \<times> world" where
  "handle_retry payment w =
     (case payment_code payment of
        None \<Rightarrow> (Inl (ServerInternalError ''Payment has no failure code''), w)
      | Some code \<Rightarrow>
         (case billing_cycle_id payment of
            None \<Rightarrow> (Inl (ServerInternalError ''Payment has no billing cycle''), w)
          | Some cycle \<Rightarrow>
             if cycle = [] then (Inl (ServerInternalError ''Payment has no billing cycle''), w)
             else
              (case BillingCycle_fetch_by_id cycle w of
                 (Inr (Some billingCycle), w1) \<Rightarrow>
                   (let days_overdue = (case cycle_days_overdue billingCycle of None \<Rightarrow> 0 | Some d \<Rightarrow> d);
                        timeBucket = getTimeBucket days_overdue
                    in case resolve_action code timeBucket (retry_sequence_nb payment) of
                         None \<Rightarrow>
                           (Inl (ServerInternalError (no_strategy_message code timeBucket)), w1)
                       | Some not_possible \<Rightarrow>
                           (Inl (ServerInternalError (not_possible_message code)),
                            logger (Error ''Retry not possible for this failure code'') w1)
                       | Some backoff \<Rightarrow>
                           (Inr payment, logger (Warn ''Backoff retry - no action taken'') w1)
                       | Some action \<Rightarrow>
                           create_retry_payment payment code cycle days_overdue timeBucket
                             action w1)
               | (_, w1) \<Rightarrow> (Inl (ServerInternalError ''Could not fetch billing cycle''), w1))))"

section \<open>\<open>handle_failed_pull_funds.ts\<close>\<close>

text \<open>
  \<open>PaymentStatusCode\<close> is not among the sources: the table of fail reasons (the reason
  of a code, where the enum has the code) and \<open>is_hard_decline_code\<close> are parameters.
\<close>

record status_codes =
  reasons :: "int \<Rightarrow> string option"
  is_hard_decline_code :: "int \<Rightarrow> bool"

definition get_fail_reason_from_code :: "status_codes \<Rightarrow> int \<Rightarrow> string" where
  "get_fail_reason_from_code sc code =
     (case reasons sc code of
        None \<Rightarrow> ''Unknown failure code: '' @ string_of_int code
      | Some r \<Rightarrow> if r = [] then ''Unknown failure code: '' @ string_of_int code else r)"

text \<open>
  \<open>Math.max(0, Math.floor((ref_date.getTime() - end_date.getTime()) / (1000 * 60 * 60 * 24)))\<close>.
\<close>

definition overdue_days :: "date \<Rightarrow> date \<Rightarrow> int" where
  "overdue_days ref_date cycle_end = max 0 ((ref_date - cycle_end) div (1000 * 60 * 60 * 24))"

definition error_detail :: "ApplicationError \<Rightarrow> string" where
  "error_detail e = (case e of ServerInternalError m \<Rightarrow> m | DatabaseError m \<Rightarrow> m)"

definition handle_failed_pull_funds ::
  "status_codes \<Rightarrow> Payment \<Rightarrow> int \<Rightarrow> date option \<Rightarrow> world \<Rightarrow> Payment Result \<times> world" where
  "handle_failed_pull_funds sc payment0 code ref_date_arg w0 =
     (let ref_date = (case ref_date_arg of None \<Rightarrow> now w0 | Some d \<Rightarrow> d);
          w = logger (Info ''Handling Failed PULL funds'') w0
      in if status payment0 = FAILED
         then (Inr payment0, logger (Warn ''Payment already in FAILED status, skipping'') w)
         else
          (case Payment_update (payment_id payment0)
                  (\<lambda>p. p\<lparr>status := FAILED, payment_code := Some code,
                          fail_reason := Some (get_fail_reason_from_code sc code)\<rparr>) w of
             (Inl e, w1) \<Rightarrow>
               (Inl (ServerInternalError
                      (if error_detail e = [] then ''Failed to update payment'' else error_detail e)),
                logger (Error ''Failed to update payment status to FAILED'') w1)
           | (Inr payment, w1) \<Rightarrow>
               (let w2 =
                      (case payment_method_id payment of
                         None \<Rightarrow> w1
                       | Some method \<Rightarrow>
                           if is_hard_decline_code sc code \<and> method \<noteq> []
                           then snd (PaymentMethod_update method
                                  (\<lambda>m. m\<lparr>method_status := INVALID,
                                          method_memo :=
                                            Some (''Invalidated by system due to hard decline code: ''
                                                   @ string_of_int code)\<rparr>)
                                  (logger (Info ''Encountered hard decline, invalidating payment method'')
                                     w1))
                           else w1);
                    w3 =
                      (case CustomerAccount_fetch_by_id (account_id payment) w2 of
                         (Inr (Some account), w') \<Rightarrow>
                           logger (Info ''Updated account metrics for failed payment'')
                             (snd (CustomerAccount_update (customer_account_id account)
                                    (\<lambda>a. a\<lparr>last_failed_payment_amount := Some (amount payment),
                                            last_failed_payment_date := Some (now w')\<rparr>) w'))
                       | (_, w') \<Rightarrow> w');
                    w4 =
                      (case billing_cycle_id payment of
                         None \<Rightarrow> w3
                       | Some cycle \<Rightarrow>
                           if cycle = [] then w3
                           else
                            (case BillingCycle_fetch_by_id cycle w3 of
                               (Inr (Some billing_cycle), w') \<Rightarrow>
                                 logger (Info ''Updated billing cycle days_overdue'')
                                   (snd (BillingCycle_update (cycle_id billing_cycle)
                                          (\<lambda>b. b\<lparr>cycle_days_overdue :=
                                                    Some (overdue_days ref_date (end_date billing_cycle))\<rparr>)
                                          w'))
                             | (_, w') \<Rightarrow> w'))
                in (Inr payment, w4))))"

section \<open>The failure branch of \<open>pull_funds\<close>\<close>

text \<open>
  \<open>pull_funds\<close>, once the processor has answered with a failure code:
  \<open>handle_failed_pull_funds\<close> with \<open>ref_date || new Date()\<close>, then \<open>handle_retry\<close> on the
  payment it returned (\<open>safe_unwrap() || payment\<close>); the payment of a successful
  \<open>handle_retry\<close> replaces it.
\<close>

definition pull_funds_failure ::
  "status_codes \<Rightarrow> Payment \<Rightarrow> int \<Rightarrow> date option \<Rightarrow> world \<Rightarrow> Payment \<times> world" where
  "pull_funds_failure sc payment0 payment_status_code ref_date w =
     (let (fail_result, w1) =
            handle_failed_pull_funds sc payment0 payment_status_code
              (Some (case ref_date of None \<Rightarrow> now w | Some d \<Rightarrow> d)) w;
          payment = (case fail_result of Inr p \<Rightarrow> p | Inl e \<Rightarrow> payment0);
          (result, w2) = handle_retry payment w1
      in case result of
           Inr p \<Rightarrow> (p, w2)
         | Inl e \<Rightarrow> (payment, w2))"

section \<open>The rule table and the outcomes, as the specification words them\<close>

datatype rule_action =
  Rule_Instant | Rule_ScheduleFriday | Rule_ScheduleFridayEOM | Rule_AlertAndBackoff
  | Rule_Backoff | Rule_NotPossible

datatype directive = UseCard | TryBankThenCard | NoChange

text \<open>
  The rule table of the retry engine, by code and bucket: the action and the
  payment-method directive; a rule \<open>NotPossible\<close> carries no directive. \<open>None\<close> is a code
  outside the table.
\<close>

definition rule_table :: "int \<Rightarrow> TimeBucket \<Rightarrow> (rule_action \<times> directive option) option" where
  "rule_table code bucket =
     (if code = 904 then
        (if bucket = B_181D_plus then Some (Rule_Backoff, Some NoChange)
         else Some (Rule_Instant, Some UseCard))
      else if code \<in> set [903, 440, 603, 604, 605, 606, 607, 777] then
        (if bucket = B_0_30D \<or> bucket = B_31_60D then Some (Rule_AlertAndBackoff, Some NoChange)
         else Some (Rule_Backoff, Some NoChange))
      else if code \<in> set [441, 701, 706] then
        (if bucket = B_0_30D \<or> bucket = B_31_60D then Some (Rule_ScheduleFriday, Some TryBankThenCard)
         else if bucket = B_61_180D then Some (Rule_ScheduleFridayEOM, Some TryBankThenCard)
         else Some (Rule_Backoff, Some NoChange))
      else if code = 601 then
        (if bucket = B_0_30D \<or> bucket = B_31_60D
         then Some (Rule_ScheduleFridayEOM, Some TryBankThenCard)
         else Some (Rule_Backoff, Some NoChange))
      else if code \<in> set [444, 445, 442, 443, 613, 615, 616, 640, 710] then
        Some (Rule_NotPossible, None)
      else None)"

text \<open>The two overrides on the retry count, as the specification words them.\<close>

definition processor_exclusion_triggers :: "int \<Rightarrow> TimeBucket \<Rightarrow> int \<Rightarrow> bool" where
  "processor_exclusion_triggers code bucket retry_count =
     (bucket = B_31_60D \<and> code \<in> set [904, 441, 601, 701, 706] \<and> retry_count > 8)"

definition forced_backoff_triggers :: "int \<Rightarrow> TimeBucket \<Rightarrow> int \<Rightarrow> bool" where
  "forced_backoff_triggers code bucket retry_count =
     (bucket = B_61_180D \<and> code \<in> set [441, 701, 706] \<and> retry_count > 12)"

text \<open>The track a directive stands for: card only, or bank first and then card.\<close>

fun directive_track :: "directive \<Rightarrow> string option" where
  "directive_track UseCard = Some ANY_CARD"
| "directive_track TryBankThenCard = Some BANK_CARD"
| "directive_track NoChange = None"

definition alerts :: "world \<Rightarrow> nat" where
  "alerts w = length (filter (\<lambda>n. case n of SendAlert m \<Rightarrow> True | _ \<Rightarrow> False) (logged w))"

text \<open>
  A successor of \<open>payment\<close> was created for \<open>action\<close>, on the track of the directive: the
  store has one more payment, the payment returned; it is annotated with the action and
  carries the track.
\<close>

definition created_for ::
  "RetryAction \<Rightarrow> directive option \<Rightarrow> Payment \<Rightarrow> world \<Rightarrow> Payment Result \<times> world \<Rightarrow> bool" where
  "created_for action dir payment w out =
     (case out of
        (Inl e, w') \<Rightarrow> False
      | (Inr s, w') \<Rightarrow>
          payments w' = payments w @ [s]
          \<and> retry_annotation s
              = Some (action_name action @ '' retry of payment '' @ payment_id payment)
          \<and> (case dir of
                None \<Rightarrow> False
              | Some d \<Rightarrow> d \<noteq> NoChange \<and> track s = directive_track d))"

text \<open>
  The resolution of \<open>payment\<close> in \<open>w\<close> yields a rule: a successor for the three
  rescheduling actions; the unchanged record and no new payment for the two backoffs,
  with an alert for \<open>AlertAndBackoff\<close> and none for \<open>Backoff\<close>; the error of a retry that
  is not possible, and no new payment, for \<open>NotPossible\<close>.
\<close>

definition yields :: "Payment \<Rightarrow> world \<Rightarrow> rule_action \<times> directive option \<Rightarrow> bool" where
  "yields payment w rule =
     (let out = handle_retry payment w in
      case fst rule of
        Rule_Instant \<Rightarrow> created_for instant (snd rule) payment w out
      | Rule_ScheduleFriday \<Rightarrow> created_for scheduled_friday (snd rule) payment w out
      | Rule_ScheduleFridayEOM \<Rightarrow> created_for scheduled_friday_eom (snd rule) payment w out
      | Rule_AlertAndBackoff \<Rightarrow>
          fst out = Inr payment \<and> payments (snd out) = payments w \<and> snd rule = Some NoChange
          \<and> alerts w < alerts (snd out)
      | Rule_Backoff \<Rightarrow>
          fst out = Inr payment \<and> payments (snd out) = payments w \<and> snd rule = Some NoChange
          \<and> alerts (snd out) = alerts w
      | Rule_NotPossible \<Rightarrow>
          (case payment_code payment of
             None \<Rightarrow> False
           | Some c \<Rightarrow> fst out = Inl (ServerInternalError (not_possible_message c)))
          \<and> payments (snd out) = payments w \<and> snd rule = None)"

text \<open>
  The action of the handler that stands for an action of the table; the handler has no
  action for an alert.
\<close>

fun rule_retry_action :: "rule_action \<Rightarrow> RetryAction" where
  "rule_retry_action Rule_Instant = instant"
| "rule_retry_action Rule_ScheduleFriday = scheduled_friday"
| "rule_retry_action Rule_ScheduleFridayEOM = scheduled_friday_eom"
| "rule_retry_action Rule_AlertAndBackoff = backoff"
| "rule_retry_action Rule_Backoff = backoff"
| "rule_retry_action Rule_NotPossible = not_possible"

text \<open>The rule the handler follows where the table says \<open>AlertAndBackoff\<close>.\<close>

fun without_alert :: "rule_action \<Rightarrow> rule_action" where
  "without_alert Rule_AlertAndBackoff = Rule_Backoff"
| "without_alert a = a"

text \<open>
  The failed payment has code \<open>c\<close>, and its billing cycle, read without a database
  fault, has \<open>d\<close> days overdue (0 when the field is \<open>null\<close>).
\<close>

definition cycle_read :: "Payment \<Rightarrow> world \<Rightarrow> int \<Rightarrow> int \<Rightarrow> bool" where
  "cycle_read payment w c d =
     (payment_code payment = Some c
      \<and> (case db_faults w of [] \<Rightarrow> True | f # fs \<Rightarrow> \<not> f)
      \<and> (case billing_cycle_id payment of
            None \<Rightarrow> False
          | Some cycle \<Rightarrow>
              cycle \<noteq> []
              \<and> (case find (\<lambda>b. cycle_id b = cycle) (billing_cycles w) of
                    None \<Rightarrow> False
                  | Some b \<Rightarrow> (case cycle_days_overdue b of None \<Rightarrow> 0 | Some x \<Rightarrow> x) = d)))"

section \<open>Sample inputs\<close>

text \<open>
  A failed payment with a code and a retry count, and a world whose billing cycle has a
  given number of days overdue; the clock is Friday 2025-01-31, 00:00.
\<close>

definition sample_payment :: "int \<Rightarrow> int \<Rightarrow> Payment" where
  "sample_payment c n =
     \<lparr>payment_id = ''pay_1'', status = FAILED, payment_code = Some c,
      direction = Some ACCOUNT_RECEIVABLE, track = Some BANK_CARD,
      payment_type = Some SUBSCRIPTION, payment_date = 1738195200000, amount = 4999,
      account_id = ''acct_1'', payment_method_id = Some ''pm_1'',
      payment_method_processor_id = Some ''pmp_1'', subscription_id = Some ''sub_1'',
      billing_cycle_id = Some ''bc_1'', retry_routing_ctx = [], retry_sequence_nb = n,
      retry_prev_payment_id = None, retry_annotation = None, retry_trace_data = None,
      retry_logic_version = None, memo = None, fail_reason = None\<rparr>"

definition sample_world :: "int \<Rightarrow> int \<Rightarrow> int \<Rightarrow> world" where
  "sample_world c n d =
     \<lparr>payments = [sample_payment c n],
      payment_methods = [\<lparr>method_id = ''pm_1'', method_status = ''VALID'', method_memo = None\<rparr>],
      accounts =
        [\<lparr>customer_account_id = ''acct_1'', balance_due_date = None,
          last_failed_payment_amount = None, last_failed_payment_date = None\<rparr>],
      billing_cycles = [\<lparr>cycle_id = ''bc_1'', end_date = 1735689600000, cycle_days_overdue = Some d\<rparr>],
      db_faults = [],
      now = 1738281600000,
      logged = []\<rparr>"

text \<open>
  A payment that is due and has not failed yet, in a world whose billing cycle ends on
  2025-01-01 and is recorded with 7 days overdue.
\<close>

definition due_payment :: Payment where
  "due_payment = (sample_payment 0 0)\<lparr>status := SCHEDULED, payment_code := None\<rparr>"

definition due_world :: world where
  "due_world = (sample_world 0 0 7)\<lparr>payments := [due_payment]\<rparr>"

definition sample_codes :: status_codes where
  "sample_codes = \<lparr>reasons = (\<lambda>c. None), is_hard_decline_code = (\<lambda>c. False)\<rparr>"

section \<open>Properties of the calendar\<close>

lemma div_lower: "0 < c \<Longrightarrow> c * (x div c) \<le> x" for x c :: int
  using mod_int_pos_iff [of x c] mult_div_mod_eq [of c x] by linarith

lemma div_upper: "0 < c \<Longrightarrow> x < c * (x div c) + c" for x c :: int
  using pos_mod_bound [of c x] mult_div_mod_eq [of c x] by linarith

lemma div_step:
  fixes x c :: int
  assumes c: "0 < c"
  shows "(x + 1) div c = x div c + (if (x + 1) mod c = 0 then 1 else 0)"
proof -
  define q where "q = x div c"
  define r where "r = x mod c"
  have x: "x = c * q + r" by (simp add: q_def r_def)
  have r: "0 \<le> r" "r < c" using c by (simp_all add: r_def)
  show ?thesis
  proof (cases "r + 1 = c")
    case True
    then have e: "x + 1 = c * (q + 1) + 0" using x by (simp add: algebra_simps)
    have "(x + 1) div c = q + 1" by (rule int_div_pos_eq [OF e]) (use c in simp_all)
    moreover have "(x + 1) mod c = 0" by (rule int_mod_pos_eq [OF e]) (use c in simp_all)
    ultimately show ?thesis by (simp add: q_def)
  next
    case False
    then have b: "0 \<le> r + 1" "r + 1 < c" using r by simp_all
    have e: "x + 1 = c * q + (r + 1)" using x by simp
    have "(x + 1) div c = q" by (rule int_div_pos_eq [OF e b])
    moreover have "(x + 1) mod c = r + 1" by (rule int_mod_pos_eq [OF e b])
    ultimately show ?thesis using r by (simp add: q_def)
  qed
qed

lemma mod_zero_shift: "c dvd k \<Longrightarrow> (y - k) mod c = 0 \<longleftrightarrow> y mod c = 0" for y c k :: int
  by (simp add: mod_eq_0_iff_dvd dvd_diff_left_iff)

lemma mod_zero_dvd: "a dvd b \<Longrightarrow> y mod b = 0 \<Longrightarrow> y mod a = 0" for y a b :: int
  by (auto simp: mod_eq_0_iff_dvd intro: dvd_trans)

lemma DayFromYear_Suc: "DayFromYear (y + 1) = DayFromYear y + DaysInYear y"
proof -
  have a: "(y + 1 - 1969) div 4 = (y - 1969) div 4 + (if y mod 4 = 0 then 1 else 0)"
    using div_step [of 4 "y - 1969"] mod_zero_shift [of 4 1968 y] by (simp add: algebra_simps)
  have b: "(y + 1 - 1901) div 100 = (y - 1901) div 100 + (if y mod 100 = 0 then 1 else 0)"
    using div_step [of 100 "y - 1901"] mod_zero_shift [of 100 1900 y]
    by (simp add: algebra_simps)
  have c: "(y + 1 - 1601) div 400 = (y - 1601) div 400 + (if y mod 400 = 0 then 1 else 0)"
    using div_step [of 400 "y - 1601"] mod_zero_shift [of 400 1600 y]
    by (simp add: algebra_simps)
  have d: "y mod 100 = 0 \<Longrightarrow> y mod 4 = 0" by (rule mod_zero_dvd [of 4 100]) simp_all
  have e: "y mod 400 = 0 \<Longrightarrow> y mod 100 = 0" by (rule mod_zero_dvd [of 100 400]) simp_all
  show ?thesis
    unfolding DayFromYear_def DaysInYear_def a b c using d e by auto
qed

lemma DayFromYear_expand:
  "400 * DayFromYear y =
     146000 * y - 287620000 + 400 * ((y - 1969) div 4) - 400 * ((y - 1901) div 100)
       + 400 * ((y - 1601) div 400)"
  by (simp add: DayFromYear_def algebra_simps)

lemma DayFromYear_upper: "400 * DayFromYear y \<le> 146097 * y - 287810501"
  using div_lower [of 4 "y - 1969"] div_upper [of 100 "y - 1901"] div_lower [of 400 "y - 1601"]
  unfolding DayFromYear_expand by linarith

lemma DayFromYear_lower: "146097 * y - 287811596 \<le> 400 * DayFromYear y"
  using div_upper [of 4 "y - 1969"] div_lower [of 100 "y - 1901"] div_upper [of 400 "y - 1601"]
  unfolding DayFromYear_expand by linarith

lemma YearFromDay_lower: "DayFromYear (YearFromDay d) \<le> d"
proof -
  define y where "y = 1970 + (400 * d) div 146097"
  have q: "146097 * y - 287811090 \<le> 400 * d"
    unfolding y_def using div_lower [of 146097 "400 * d"] by simp
  show ?thesis
  proof (cases "d < DayFromYear y")
    case True
    have "400 * DayFromYear (y - 1) \<le> 400 * d"
      using DayFromYear_upper [of "y - 1"] q by (simp add: algebra_simps)
    then show ?thesis using True by (simp add: YearFromDay_def Let_def y_def [symmetric])
  next
    case False
    then show ?thesis by (simp add: YearFromDay_def Let_def y_def [symmetric])
  qed
qed

lemma YearFromDay_upper: "d < DayFromYear (YearFromDay d + 1)"
proof -
  define y where "y = 1970 + (400 * d) div 146097"
  have q: "400 * d < 146097 * y - 287811090 + 146097"
    unfolding y_def using div_upper [of 146097 "400 * d"] by simp
  show ?thesis
  proof (cases "d < DayFromYear y")
    case True
    then show ?thesis by (simp add: YearFromDay_def Let_def y_def [symmetric])
  next
    case False
    have "400 * d < 400 * DayFromYear (y + 2)"
      using DayFromYear_lower [of "y + 2"] q by (simp add: algebra_simps)
    then have "d < DayFromYear (y + 1 + 1)" by (simp add: add.commute)
    then show ?thesis using False by (simp add: YearFromDay_def Let_def y_def [symmetric])
  qed
qed

lemma DaysInYear_cases: "DaysInYear y = 365 \<or> DaysInYear y = 366"
  by (simp add: DaysInYear_def)

lemma DayWithinYear_bounds:
  "0 \<le> DayWithinYear t" "DayWithinYear t < DaysInYear (YearFromTime t)"
  using YearFromDay_lower [of "Day t"] YearFromDay_upper [of "Day t"]
    DayFromYear_Suc [of "YearFromDay (Day t)"]
  by (simp_all add: DayWithinYear_def YearFromTime_def)

lemma MonthFromDayWithinYear_range:
  "0 \<le> MonthFromDayWithinYear dwy leap" "MonthFromDayWithinYear dwy leap \<le> 11"
  by (simp_all add: MonthFromDayWithinYear_def)

lemma MonthFromTime_range: "0 \<le> MonthFromTime t" "MonthFromTime t \<le> 11"
  by (simp_all add: MonthFromTime_def MonthFromDayWithinYear_range)

lemma MakeDay_in_year: "0 \<le> m \<Longrightarrow> m \<le> 11 \<Longrightarrow>
  MakeDay y m dt = DayFromYear y + MonthStart m (if DaysInYear y = 366 then 1 else 0) + dt - 1"
  by (simp add: MakeDay_def Let_def)

lemma MakeDay_DateFromTime:
  "MakeDay (YearFromTime t) (MonthFromTime t) (DateFromTime t + n) = Day t + n"
  using MonthFromTime_range [of t]
  by (simp add: MakeDay_in_year DateFromTime_def DayWithinYear_def InLeapYear_def)

lemma MakeDate_Day: "MakeDate (Day t + n) (TimeWithinDay t) = t + n * msPerDay"
  by (simp add: MakeDate_def Day_def TimeWithinDay_def algebra_simps)

lemma setDate_getDate: "setDate t (getDate t + n) = t + n * msPerDay"
  by (simp add: setDate_def getDate_def MakeDay_DateFromTime MakeDate_Day)

lemma Day_shift: "Day (t + n * msPerDay) = Day t + n"
  by (simp add: Day_def msPerDay_def)

lemma WeekDay_shift: "WeekDay (t + n * msPerDay) = (WeekDay t + n) mod 7"
  unfolding WeekDay_def Day_shift by presburger

lemma WeekDay_range: "0 \<le> WeekDay t" "WeekDay t < 7"
  by (simp_all add: WeekDay_def)

lemma getNextFriday_eq:
  "getNextFriday t = t + (if WeekDay t = 5 then 7 else (12 - WeekDay t) mod 7) * msPerDay"
  using WeekDay_range [of t]
  apply (simp add: getNextFriday_def Let_def getDay_def setDate_getDate)
  apply presburger
  done

lemma getNextFriday_shift:
  obtains n where "1 \<le> n" "n \<le> 7" "(WeekDay from + n) mod 7 = 5"
    "getNextFriday from = from + n * msPerDay"
proof -
  define w where "w = WeekDay from"
  define n where "n = (if w = 5 then 7 else (12 - w) mod 7)"
  have w: "0 \<le> w" "w < 7" using WeekDay_range [of "from"] by (simp_all add: w_def)
  have n: "1 \<le> n" "n \<le> 7" "(w + n) mod 7 = 5" using w unfolding n_def by presburger+
  have e: "getNextFriday from = from + n * msPerDay"
    by (simp add: getNextFriday_eq n_def w_def)
  show thesis using n e by (intro that [of n]) (simp_all add: w_def)
qed

lemma getNextFriday_later: "from < getNextFriday from"
proof -
  obtain n where "1 \<le> n" "getNextFriday from = from + n * msPerDay"
    by (rule getNextFriday_shift)
  then show ?thesis by (simp add: msPerDay_def)
qed

lemma MakeDay_index: "MakeDay y m dt = FirstDayOfMonth (12 * y + m) + dt - 1"
  by (simp add: MakeDay_def FirstDayOfMonth_def Let_def)

lemma FirstDayOfMonth_in_year:
  "0 \<le> m \<Longrightarrow> m \<le> 11 \<Longrightarrow>
   FirstDayOfMonth (12 * y + m) = DayFromYear y + MonthStart m (if DaysInYear y = 366 then 1 else 0)"
  using MakeDay_index [of y m 1] by (simp add: MakeDay_in_year)

lemma FirstDayOfMonth_next_year: "FirstDayOfMonth (12 * y + 11 + 1) = DayFromYear y + DaysInYear y"
proof -
  have e: "12 * y + 11 + 1 = 12 * (y + 1) + 0" by simp
  have "FirstDayOfMonth (12 * (y + 1) + 0) =
      DayFromYear (y + 1) + MonthStart 0 (if DaysInYear (y + 1) = 366 then 1 else 0)"
    by (rule FirstDayOfMonth_in_year) simp_all
  then show ?thesis unfolding e by (simp add: MonthStart_def DayFromYear_Suc)
qed

lemma MonthStart_step:
  assumes "0 \<le> m" "m < 11" "0 \<le> leap"
  shows "MonthStart m leap + 28 \<le> MonthStart (m + 1) leap"
proof -
  have "m = 0 \<or> m = 1 \<or> m = 2 \<or> m = 3 \<or> m = 4 \<or> m = 5 \<or> m = 6 \<or> m = 7 \<or> m = 8
      \<or> m = 9 \<or> m = 10"
    using assms(1,2) by presburger
  then show ?thesis using assms(3) by (elim disjE) (simp_all add: MonthStart_def)
qed

lemma FirstDayOfMonth_step: "FirstDayOfMonth i + 28 \<le> FirstDayOfMonth (i + 1)"
proof -
  define y where "y = i div 12"
  define m where "m = i mod 12"
  have i: "i = 12 * y + m" by (simp add: y_def m_def)
  have m: "0 \<le> m" "m \<le> 11" by (simp_all add: m_def)
  define leap :: int where "leap = (if DaysInYear y = 366 then 1 else 0)"
  show ?thesis
  proof (cases "m = 11")
    case True
    have "FirstDayOfMonth (i + 1) = DayFromYear y + DaysInYear y"
      unfolding i True by (rule FirstDayOfMonth_next_year)
    moreover have "FirstDayOfMonth i = DayFromYear y + 334 + leap"
      using FirstDayOfMonth_in_year [of 11 y] by (simp add: i True MonthStart_def leap_def)
    ultimately show ?thesis using DaysInYear_cases [of y] by (auto simp: leap_def)
  next
    case False
    then have m': "0 \<le> m + 1" "m + 1 \<le> 11" "m < 11" using m by simp_all
    have "FirstDayOfMonth (i + 1) = DayFromYear y + MonthStart (m + 1) leap"
      using FirstDayOfMonth_in_year [OF m'(1,2), of y] unfolding i leap_def add.assoc .
    moreover have "FirstDayOfMonth i = DayFromYear y + MonthStart m leap"
      using FirstDayOfMonth_in_year [OF m, of y] by (simp add: i leap_def)
    moreover have "0 \<le> leap" by (simp add: leap_def)
    ultimately show ?thesis using MonthStart_step [OF m(1) m'(3), of leap] by simp
  qed
qed

lemma FirstDayOfMonth_mono_nat: "FirstDayOfMonth i + 28 * int k \<le> FirstDayOfMonth (i + int k)"
proof (induction k)
  case 0
  then show ?case by simp
next
  case (Suc k)
  have s: "FirstDayOfMonth (i + int k) + 28 \<le> FirstDayOfMonth (i + int k + 1)"
    by (rule FirstDayOfMonth_step)
  have e: "i + int (Suc k) = i + int k + 1" "28 * int (Suc k) = 28 * int k + 28" by simp_all
  show ?case unfolding e using Suc s by linarith
qed

lemma FirstDayOfMonth_mono: "i \<le> j \<Longrightarrow> FirstDayOfMonth i + 28 * (j - i) \<le> FirstDayOfMonth j"
  using FirstDayOfMonth_mono_nat [of i "nat (j - i)"] by simp

lemma MonthFromDayWithinYear_start:
  "0 \<le> dwy \<Longrightarrow> MonthStart (MonthFromDayWithinYear dwy leap) leap \<le> dwy"
  unfolding MonthFromDayWithinYear_def MonthStart_def by simp

lemma MonthFromDayWithinYear_end:
  "MonthFromDayWithinYear dwy leap < 11 \<Longrightarrow>
   dwy < MonthStart (MonthFromDayWithinYear dwy leap + 1) leap"
  unfolding MonthFromDayWithinYear_def MonthStart_def by (simp split: if_splits)

lemma Day_in_month_lower: "FirstDayOfMonth (MonthIndex t) \<le> Day t"
  using MonthFromTime_range [of t] DayWithinYear_bounds(1) [of t]
    MonthFromDayWithinYear_start [of "DayWithinYear t" "InLeapYear t"]
  by (simp add: MonthIndex_def FirstDayOfMonth_in_year MonthFromTime_def InLeapYear_def
      DayWithinYear_def)

lemma Day_in_month_upper: "Day t < FirstDayOfMonth (MonthIndex t + 1)"
proof (cases "MonthFromTime t = 11")
  case True
  have "FirstDayOfMonth (MonthIndex t + 1) = DayFromYear (YearFromTime t) + DaysInYear (YearFromTime t)"
    unfolding MonthIndex_def True by (rule FirstDayOfMonth_next_year)
  then show ?thesis using DayWithinYear_bounds(2) [of t] by (simp add: DayWithinYear_def)
next
  case False
  then have m: "MonthFromTime t < 11" "0 \<le> MonthFromTime t + 1" "MonthFromTime t + 1 \<le> 11"
    using MonthFromTime_range [of t] by simp_all
  have "FirstDayOfMonth (MonthIndex t + 1) =
      DayFromYear (YearFromTime t) + MonthStart (MonthFromTime t + 1) (InLeapYear t)"
    using FirstDayOfMonth_in_year [OF m(2,3), of "YearFromTime t"]
    unfolding MonthIndex_def InLeapYear_def add.assoc .
  then show ?thesis
    using MonthFromDayWithinYear_end [of "DayWithinYear t" "InLeapYear t"] m(1)
    by (simp add: MonthFromTime_def DayWithinYear_def)
qed

lemma Day_midnight: "Day (d * msPerDay) = d"
  by (simp add: Day_def msPerDay_def)

lemma setDate_getDate_minus: "setDate t (getDate t - n) = t - n * msPerDay"
  using setDate_getDate [of t "- n"] by simp

lemma FirstDayOfMonth_le: "i \<le> j \<Longrightarrow> FirstDayOfMonth i \<le> FirstDayOfMonth j"
proof -
  assume "i \<le> j"
  then have "0 \<le> 28 * (j - i)" by simp
  with FirstDayOfMonth_mono [OF \<open>i \<le> j\<close>] show ?thesis by linarith
qed

lemma getLastFridayOfMonthForDate_eq:
  fixes y m :: int
  defines "yr \<equiv> (if 0 \<le> y \<and> y \<le> 99 then 1900 + y else y)"
  defines "L \<equiv> FirstDayOfMonth (12 * yr + (m + 1)) - 1"
  shows "getLastFridayOfMonthForDate y m = (L - ((L + 4) mod 7 + 2) mod 7) * msPerDay"
proof -
  have d: "new_Date y (m + 1) 0 = L * msPerDay"
    by (simp add: new_Date_def MakeDate_def MakeDay_index L_def yr_def)
  have w: "getDay (L * msPerDay) = (L + 4) mod 7"
    by (simp add: getDay_def WeekDay_def Day_midnight)
  show ?thesis
    unfolding getLastFridayOfMonthForDate_def Let_def d w setDate_getDate_minus
    by (simp add: algebra_simps)
qed

lemma getLastFridayOfMonthForDate_is_friday: "getDay (getLastFridayOfMonthForDate y m) = 5"
  unfolding getLastFridayOfMonthForDate_eq getDay_def WeekDay_def Day_midnight by presburger

lemma getLastFridayOfMonthForDate_lower:
  "(FirstDayOfMonth (12 * y + (m + 1)) - 7) * msPerDay \<le> getLastFridayOfMonthForDate y m"
proof -
  define yr where "yr = (if 0 \<le> y \<and> y \<le> 99 then 1900 + y else y)"
  define L where "L = FirstDayOfMonth (12 * yr + (m + 1)) - 1"
  have "12 * y + (m + 1) \<le> 12 * yr + (m + 1)" by (simp add: yr_def)
  then have "FirstDayOfMonth (12 * y + (m + 1)) \<le> FirstDayOfMonth (12 * yr + (m + 1))"
    by (rule FirstDayOfMonth_le)
  then have a: "FirstDayOfMonth (12 * y + (m + 1)) \<le> L + 1" by (simp add: L_def)
  define s where "s = ((L + 4) mod 7 + 2) mod 7"
  have "s \<le> 6" by (simp add: s_def)
  with a have "FirstDayOfMonth (12 * y + (m + 1)) - 7 \<le> L - s" by linarith
  then have "(FirstDayOfMonth (12 * y + (m + 1)) - 7) * msPerDay
      \<le> (L - ((L + 4) mod 7 + 2) mod 7) * msPerDay"
    by (simp add: msPerDay_def s_def)
  then show ?thesis
    using getLastFridayOfMonthForDate_eq [of y m] by (simp add: L_def yr_def)
qed

lemma Day_upper: "t < (Day t + 1) * msPerDay"
  using div_upper [of msPerDay t] by (simp add: Day_def msPerDay_def algebra_simps)

lemma Day_MakeDate: "Day (MakeDate d (TimeWithinDay t)) = d"
  by (simp add: Day_def MakeDate_def TimeWithinDay_def msPerDay_def)

lemma DateFromTime_pos: "1 \<le> DateFromTime t"
  using MonthFromDayWithinYear_start [of "DayWithinYear t" "InLeapYear t"]
    DayWithinYear_bounds(1) [of t]
  by (simp add: DateFromTime_def MonthFromTime_def)

lemma getLastFridayOfMonth_later: "from < getLastFridayOfMonth from"
proof (cases "getLastFridayOfMonthForDate (getFullYear from) (getMonth from) \<le> from")
  case False
  then show ?thesis by (simp add: getLastFridayOfMonth_def Let_def)
next
  case True
  define i where "i = MonthIndex from"
  define nextMonth where "nextMonth = setMonth from (getMonth from + 1)"
  define j where "j = MonthIndex nextMonth"
  have r: "getLastFridayOfMonth from
      = getLastFridayOfMonthForDate (YearFromTime nextMonth) (MonthFromTime nextMonth)"
    using True by (simp add: getLastFridayOfMonth_def Let_def nextMonth_def getFullYear_def getMonth_def)
  have "Day nextMonth = MakeDay (YearFromTime from) (MonthFromTime from + 1) (DateFromTime from)"
    by (simp add: nextMonth_def setMonth_def getMonth_def Day_MakeDate)
  also have "\<dots> = FirstDayOfMonth (i + 1) + DateFromTime from - 1"
    by (simp add: MakeDay_index i_def MonthIndex_def add.assoc)
  finally have n: "FirstDayOfMonth (i + 1) \<le> Day nextMonth"
    using DateFromTime_pos [of "from"] by simp
  have u: "Day nextMonth < FirstDayOfMonth (j + 1)"
    unfolding j_def by (rule Day_in_month_upper)
  have ij: "i < j"
  proof (rule ccontr)
    assume "\<not> i < j"
    then have "j + 1 \<le> i + 1" by simp
    then have "FirstDayOfMonth (j + 1) \<le> FirstDayOfMonth (i + 1)"
      by (rule FirstDayOfMonth_le)
    with n u show False by simp
  qed
  then have "i + 1 \<le> j" by simp
  then have "FirstDayOfMonth (i + 1) \<le> FirstDayOfMonth j" by (rule FirstDayOfMonth_le)
  moreover have "FirstDayOfMonth j + 28 \<le> FirstDayOfMonth (j + 1)" by (rule FirstDayOfMonth_step)
  moreover have "Day from < FirstDayOfMonth (i + 1)" unfolding i_def by (rule Day_in_month_upper)
  ultimately have "Day from + 1 \<le> FirstDayOfMonth (j + 1) - 7" by simp
  then have "(Day from + 1) * msPerDay \<le> (FirstDayOfMonth (j + 1) - 7) * msPerDay"
    by (simp add: msPerDay_def)
  moreover have "(FirstDayOfMonth (j + 1) - 7) * msPerDay
      \<le> getLastFridayOfMonthForDate (YearFromTime nextMonth) (MonthFromTime nextMonth)"
    using getLastFridayOfMonthForDate_lower [of "YearFromTime nextMonth" "MonthFromTime nextMonth"]
    by (simp add: j_def MonthIndex_def add.assoc)
  ultimately show ?thesis using Day_upper [of "from"] r by linarith
qed

lemma getScheduledDate_later: "from < getScheduledDate type due from"
  using getLastFridayOfMonth_later [of "from"] getNextFriday_later [of "from"]
  by (simp add: getScheduledDate_def Let_def split: option.splits)

section \<open>The claims on the dates\<close>

text \<open>
  C8. For every date \<open>from\<close>, \<open>getNextFriday from\<close> is a Friday, it lies on another
  calendar day than \<open>from\<close>, and it is strictly after \<open>from\<close>: also when \<open>from\<close> is a
  Friday, where it is the Friday of the week after.
\<close>

theorem getNextFriday_is_later_friday:
  "getDay (getNextFriday from) = 5 \<and> Day (getNextFriday from) \<noteq> Day from
     \<and> from < getNextFriday from"
proof -
  obtain n where n: "1 \<le> n" "n \<le> 7" "(WeekDay from + n) mod 7 = 5"
    and e: "getNextFriday from = from + n * msPerDay"
    by (rule getNextFriday_shift)
  have "getDay (getNextFriday from) = 5"
    unfolding e getDay_def WeekDay_shift using n by simp
  moreover have "Day (getNextFriday from) \<noteq> Day from"
    unfolding e Day_shift using n by simp
  moreover have "from < getNextFriday from"
    unfolding e using n by (simp add: msPerDay_def)
  ultimately show ?thesis by simp
qed

section \<open>Properties of the handlers\<close>

lemma db_call_fields [simp]:
  "payments (snd (db_call w)) = payments w"
  "accounts (snd (db_call w)) = accounts w"
  "billing_cycles (snd (db_call w)) = billing_cycles w"
  "payment_methods (snd (db_call w)) = payment_methods w"
  "now (snd (db_call w)) = now w"
  "logged (snd (db_call w)) = logged w"
  "db_faults (snd (db_call w)) = tl (db_faults w)"
  by (simp_all add: db_call_def split: list.splits)

lemma db_call_fault: "fst (db_call w) = (case db_faults w of [] \<Rightarrow> False | f # fs \<Rightarrow> f)"
  by (simp add: db_call_def split: list.splits)

lemma logger_fields [simp]:
  "payments (logger n w) = payments w"
  "accounts (logger n w) = accounts w"
  "billing_cycles (logger n w) = billing_cycles w"
  "now (logger n w) = now w"
  "db_faults (logger n w) = db_faults w"
  "logged (logger n w) = logged w @ [n]"
  by (simp_all add: logger_def)

lemma alerts_db_call [simp]: "alerts (snd (db_call w)) = alerts w"
  by (simp add: alerts_def)

lemma alerts_logger [simp]:
  "alerts (logger (Info m) w) = alerts w"
  "alerts (logger (Warn m) w) = alerts w"
  "alerts (logger (Error m) w) = alerts w"
  by (simp_all add: alerts_def)

lemma BillingCycle_fetch_by_id_eq:
  "BillingCycle_fetch_by_id i w =
     (if fst (db_call w) then Inl (DatabaseError ''Failed to fetch billing cycle'')
      else Inr (find (\<lambda>b. cycle_id b = i) (billing_cycles w)), snd (db_call w))"
proof -
  obtain f w1 where e: "db_call w = (f, w1)" by (cases "db_call w")
  have "billing_cycles w1 = billing_cycles w" using db_call_fields(3) [of w] by (simp add: e)
  then show ?thesis by (simp add: BillingCycle_fetch_by_id_def e)
qed

lemma CustomerAccount_fetch_by_id_eq:
  "CustomerAccount_fetch_by_id i w =
     (if fst (db_call w) then Inl (DatabaseError ''Failed to fetch customer account'')
      else Inr (find (\<lambda>a. customer_account_id a = i) (accounts w)), snd (db_call w))"
proof -
  obtain f w1 where e: "db_call w = (f, w1)" by (cases "db_call w")
  have "accounts w1 = accounts w" using db_call_fields(2) [of w] by (simp add: e)
  then show ?thesis by (simp add: CustomerAccount_fetch_by_id_def e)
qed

lemma Payment_create_eq:
  "Payment_create input w =
     (if fst (db_call w) then (Inl (DatabaseError ''Failed to create payment''), snd (db_call w))
      else (Inr (input\<lparr>payment_id := new_payment_id w\<rparr>),
            (snd (db_call w))\<lparr>payments := payments w @ [input\<lparr>payment_id := new_payment_id w\<rparr>]\<rparr>))"
proof -
  obtain f w1 where e: "db_call w = (f, w1)" by (cases "db_call w")
  have "payments w1 = payments w" using db_call_fields(1) [of w] by (simp add: e)
  then show ?thesis by (simp add: Payment_create_def new_payment_id_def Let_def e)
qed

lemma cycle_read_fetch:
  assumes "cycle_read payment w c d"
  obtains cycle b where "payment_code payment = Some c" "billing_cycle_id payment = Some cycle"
    "cycle \<noteq> []" "BillingCycle_fetch_by_id cycle w = (Inr (Some b), snd (db_call w))"
    "(case cycle_days_overdue b of None \<Rightarrow> 0 | Some x \<Rightarrow> x) = d"
proof -
  have c1: "payment_code payment = Some c" using assms by (simp add: cycle_read_def)
  have c4: "\<not> fst (db_call w)"
    using assms by (auto simp: cycle_read_def db_call_fault split: list.splits)
  obtain cycle where c2: "billing_cycle_id payment = Some cycle"
    using assms by (cases "billing_cycle_id payment") (simp_all add: cycle_read_def)
  have c3: "cycle \<noteq> []" using assms c2 by (simp add: cycle_read_def)
  have f: "(case find (\<lambda>b. cycle_id b = cycle) (billing_cycles w) of
              None \<Rightarrow> False
            | Some b \<Rightarrow> (case cycle_days_overdue b of None \<Rightarrow> 0 | Some x \<Rightarrow> x) = d)"
    using assms c2 by (simp add: cycle_read_def)
  note c = c1 c2 c3 c4
  from f obtain b where b: "find (\<lambda>b. cycle_id b = cycle) (billing_cycles w) = Some b"
    "(case cycle_days_overdue b of None \<Rightarrow> 0 | Some x \<Rightarrow> x) = d"
    by (cases "find (\<lambda>b. cycle_id b = cycle) (billing_cycles w)") simp_all
  have "BillingCycle_fetch_by_id cycle w = (Inr (Some b), snd (db_call w))"
    using c(4) b(1) by (simp add: BillingCycle_fetch_by_id_eq)
  with c b show thesis by (intro that [of cycle b])
qed

lemma handle_retry_read:
  assumes "cycle_read payment w c d" and "billing_cycle_id payment = Some cycle"
  shows "handle_retry payment w =
    (case resolve_action c (getTimeBucket d) (retry_sequence_nb payment) of
       None \<Rightarrow>
         (Inl (ServerInternalError (no_strategy_message c (getTimeBucket d))), snd (db_call w))
     | Some not_possible \<Rightarrow>
         (Inl (ServerInternalError (not_possible_message c)),
          logger (Error ''Retry not possible for this failure code'') (snd (db_call w)))
     | Some backoff \<Rightarrow>
         (Inr payment, logger (Warn ''Backoff retry - no action taken'') (snd (db_call w)))
     | Some action \<Rightarrow>
         create_retry_payment payment c cycle d (getTimeBucket d) action (snd (db_call w)))"
proof -
  from assms(1) obtain cycle' b where r: "payment_code payment = Some c"
    "billing_cycle_id payment = Some cycle'"
    "cycle' \<noteq> []" "BillingCycle_fetch_by_id cycle' w = (Inr (Some b), snd (db_call w))"
    "(case cycle_days_overdue b of None \<Rightarrow> 0 | Some x \<Rightarrow> x) = d"
    by (rule cycle_read_fetch)
  with assms(2) have "cycle' = cycle" by simp
  with r show ?thesis by (simp add: handle_retry_def Let_def)
qed

lemma now_le_getScheduledDate: "from \<le> getScheduledDate type due from"
  using getScheduledDate_later [of "from" type due] by simp

lemma alerts_payments_update [simp]: "alerts (w\<lparr>payments := ps\<rparr>) = alerts w"
  by (simp add: alerts_def)

lemma retry_date_later: "today \<le> fst (retry_date action due today)"
  by (simp add: retry_date_def now_le_getScheduledDate)

lemma retry_payment_input_fields:
  "status (retry_payment_input payment c cycle d b action retry today) = SCHEDULED"
  "track (retry_payment_input payment c cycle d b action retry today) = Some (retryTrack c)"
  "payment_date (retry_payment_input payment c cycle d b action retry today) = fst retry"
  "retry_routing_ctx (retry_payment_input payment c cycle d b action retry today)
     = retryRoutingCtx payment c b"
  "retry_sequence_nb (retry_payment_input payment c cycle d b action retry today)
     = retry_sequence_nb payment + 1"
  "retry_prev_payment_id (retry_payment_input payment c cycle d b action retry today)
     = Some (payment_id payment)"
  "retry_annotation (retry_payment_input payment c cycle d b action retry today)
     = Some (action_name action @ '' retry of payment '' @ payment_id payment)"
  by (simp_all add: retry_payment_input_def)

lemma fetch_balance_due_date_world:
  "snd (fetch_balance_due_date payment action w) = w
   \<or> snd (fetch_balance_due_date payment action w) = snd (db_call w)"
  by (simp add: fetch_balance_due_date_def CustomerAccount_fetch_by_id_eq split: option.splits)

lemma fetch_balance_due_date_fields [simp]:
  "payments (snd (fetch_balance_due_date payment action w)) = payments w"
  "now (snd (fetch_balance_due_date payment action w)) = now w"
  "alerts (snd (fetch_balance_due_date payment action w)) = alerts w"
  using fetch_balance_due_date_world [of payment action w] by auto

lemma fetch_balance_due_date_faults:
  "True \<notin> set (db_faults w) \<Longrightarrow>
   True \<notin> set (db_faults (snd (fetch_balance_due_date payment action w)))"
  using fetch_balance_due_date_world [of payment action w]
  by (cases "db_faults w") auto

lemma create_retry_payment_result:
  assumes "create_retry_payment payment c cycle d b action w = (res, w')"
  shows "alerts w' = alerts w"
    and "res = Inl e \<Longrightarrow> e = ServerInternalError ''Failed to create retry payment''
           \<and> payments w' = payments w"
    and "res = Inr s \<Longrightarrow>
           payments w' = payments w @ [s]
           \<and> retry_prev_payment_id s = Some (payment_id payment)
           \<and> retry_sequence_nb s = retry_sequence_nb payment + 1
           \<and> status s = SCHEDULED
           \<and> retry_annotation s
               = Some (action_name action @ '' retry of payment '' @ payment_id payment)
           \<and> track s = Some (retryTrack c)
           \<and> retry_routing_ctx s = retryRoutingCtx payment c b
           \<and> now w \<le> payment_date s"
proof -
  obtain due w1 where f: "fetch_balance_due_date payment action w = (due, w1)"
    by (cases "fetch_balance_due_date payment action w")
  have w1: "payments w1 = payments w" "now w1 = now w" "alerts w1 = alerts w"
    using fetch_balance_due_date_fields [of payment action w] by (simp_all add: f)
  define input where "input = retry_payment_input payment c cycle d b action
      (retry_date action due (now w1)) (now w1)"
  have r: "(res, w') = (case Payment_create input w1 of
             (Inl e, w2) \<Rightarrow> (Inl (ServerInternalError ''Failed to create retry payment''), w2)
           | (Inr retryPayment, w2) \<Rightarrow> (Inr retryPayment, w2))"
    using assms by (simp add: create_retry_payment_def f input_def)
  show "alerts w' = alerts w"
    using r w1 by (auto simp: Payment_create_eq split: if_splits)
  show "res = Inl e \<Longrightarrow> e = ServerInternalError ''Failed to create retry payment''
           \<and> payments w' = payments w"
    using r w1 by (auto simp: Payment_create_eq split: if_splits)
  show "payments w' = payments w @ [s]
           \<and> retry_prev_payment_id s = Some (payment_id payment)
           \<and> retry_sequence_nb s = retry_sequence_nb payment + 1
           \<and> status s = SCHEDULED
           \<and> retry_annotation s
               = Some (action_name action @ '' retry of payment '' @ payment_id payment)
           \<and> track s = Some (retryTrack c)
           \<and> retry_routing_ctx s = retryRoutingCtx payment c b
           \<and> now w \<le> payment_date s" if "res = Inr s"
  proof -
    from r that have s: "s = input\<lparr>payment_id := new_payment_id w1\<rparr>"
      and w': "w' = (snd (db_call w1))\<lparr>payments := payments w1 @ [s]\<rparr>"
      by (auto simp: Payment_create_eq split: if_splits)
    have "now w \<le> payment_date s"
      using retry_date_later [of "now w1" action due]
      by (simp add: s input_def retry_payment_input_fields w1)
    then show ?thesis
      by (simp add: w' w1) (simp add: s input_def retry_payment_input_fields)
  qed
qed

lemma create_retry_payment_succeeds:
  assumes "True \<notin> set (db_faults w)"
  shows "\<exists>s w'. create_retry_payment payment c cycle d b action w = (Inr s, w')"
proof -
  obtain due w1 where f: "fetch_balance_due_date payment action w = (due, w1)"
    by (cases "fetch_balance_due_date payment action w")
  have "True \<notin> set (db_faults w1)"
    using fetch_balance_due_date_faults [OF assms, of payment action] by (simp add: f)
  then have "\<not> fst (db_call w1)"
    by (auto simp: db_call_fault split: list.splits)
  then show ?thesis
    by (simp add: create_retry_payment_def f Payment_create_eq)
qed

lemma rule_table_action:
  assumes "rule_table c b = Some (a, dir)"
  shows "getRetryAction c b = Some (rule_retry_action a)"
  using assms
  by (cases b)
    (auto simp: rule_table_def getRetryAction_def NOT_POSSIBLE_CODES_def split: if_splits)

lemma rule_table_directive:
  assumes "rule_table c b = Some (a, dir)"
  shows "a = Rule_Instant \<or> a = Rule_ScheduleFriday \<or> a = Rule_ScheduleFridayEOM \<Longrightarrow>
           \<exists>x. dir = Some x \<and> x \<noteq> NoChange \<and> directive_track x = Some (retryTrack c)"
    and "a = Rule_AlertAndBackoff \<or> a = Rule_Backoff \<Longrightarrow> dir = Some NoChange"
    and "a = Rule_NotPossible \<Longrightarrow> dir = None"
  using assms
  by (auto simp: rule_table_def retryTrack_def split: if_splits)

lemma rule_table_None:
  assumes "rule_table c b = None"
  shows "resolve_action c b n = None"
  using assms
  by (cases b)
    (auto simp: rule_table_def resolve_action_def getRetryAction_def NOT_POSSIBLE_CODES_def
      CODES_WITH_RETRY_LIMIT_12_def split: if_splits)

lemma resolve_action_unforced:
  "\<not> forced_backoff_triggers c b n \<Longrightarrow> resolve_action c b n = getRetryAction c b"
  by (auto simp: forced_backoff_triggers_def resolve_action_def CODES_WITH_RETRY_LIMIT_12_def)

lemma resolve_action_forced:
  "forced_backoff_triggers c b n \<Longrightarrow> resolve_action c b n = Some backoff"
  by (simp add: forced_backoff_triggers_def resolve_action_def CODES_WITH_RETRY_LIMIT_12_def)

lemma handle_retry_alerts: "alerts (snd (handle_retry payment w)) = alerts w"
proof (cases "payment_code payment")
  case None
  then show ?thesis by (simp add: handle_retry_def)
next
  case (Some c)
  show ?thesis
  proof (cases "billing_cycle_id payment")
    case None
    then show ?thesis using Some by (simp add: handle_retry_def)
  next
    case (Some cycle)
    note cy = Some
    show ?thesis
    proof (cases "cycle = []")
      case True
      then show ?thesis using \<open>payment_code payment = Some c\<close> cy by (simp add: handle_retry_def)
    next
      case False
      have a: "alerts (snd (create_retry_payment payment c cycle d b action w1)) = alerts w1"
        for d b action w1
        using create_retry_payment_result(1) [of payment c cycle d b action w1]
        by (cases "create_retry_payment payment c cycle d b action w1") simp
      show ?thesis
        using \<open>payment_code payment = Some c\<close> cy False
        by (simp add: handle_retry_def BillingCycle_fetch_by_id_eq Let_def a
            split: option.splits RetryAction.splits)
    qed
  qed
qed

lemma sample_cycle_read: "cycle_read (sample_payment c n) (sample_world c n d) c d"
  by (simp add: cycle_read_def sample_payment_def sample_world_def)

lemma sample_no_faults: "True \<notin> set (db_faults (sample_world c n d))"
  by (simp add: sample_world_def)

lemma handle_retry_backoff:
  assumes "cycle_read payment w c d"
    and "resolve_action c (getTimeBucket d) (retry_sequence_nb payment) = Some backoff"
  shows "handle_retry payment w
    = (Inr payment, logger (Warn ''Backoff retry - no action taken'') (snd (db_call w)))"
proof -
  obtain cycle where "billing_cycle_id payment = Some cycle"
    using assms(1) by (rule cycle_read_fetch)
  from handle_retry_read [OF assms(1) this] show ?thesis by (simp add: assms(2))
qed

lemma handle_retry_not_possible:
  assumes "cycle_read payment w c d"
    and "resolve_action c (getTimeBucket d) (retry_sequence_nb payment) = Some not_possible"
  shows "handle_retry payment w
    = (Inl (ServerInternalError (not_possible_message c)),
       logger (Error ''Retry not possible for this failure code'') (snd (db_call w)))"
proof -
  obtain cycle where "billing_cycle_id payment = Some cycle"
    using assms(1) by (rule cycle_read_fetch)
  from handle_retry_read [OF assms(1) this] show ?thesis by (simp add: assms(2))
qed

lemma handle_retry_unknown:
  assumes "cycle_read payment w c d"
    and "resolve_action c (getTimeBucket d) (retry_sequence_nb payment) = None"
  shows "handle_retry payment w
    = (Inl (ServerInternalError (no_strategy_message c (getTimeBucket d))), snd (db_call w))"
proof -
  obtain cycle where "billing_cycle_id payment = Some cycle"
    using assms(1) by (rule cycle_read_fetch)
  from handle_retry_read [OF assms(1) this] show ?thesis by (simp add: assms(2))
qed

lemma handle_retry_create:
  assumes "cycle_read payment w c d"
    and "resolve_action c (getTimeBucket d) (retry_sequence_nb payment) = Some action"
    and "action = instant \<or> action = scheduled_friday \<or> action = scheduled_friday_eom"
  obtains cycle where
    "handle_retry payment w
      = create_retry_payment payment c cycle d (getTimeBucket d) action (snd (db_call w))"
proof -
  obtain cycle where "billing_cycle_id payment = Some cycle"
    using assms(1) by (rule cycle_read_fetch)
  from handle_retry_read [OF assms(1) this] assms(3)
  have "handle_retry payment w
      = create_retry_payment payment c cycle d (getTimeBucket d) action (snd (db_call w))"
    by (auto simp: assms(2))
  then show thesis by (rule that)
qed

lemma tail_no_faults: "True \<notin> set (db_faults w) \<Longrightarrow> True \<notin> set (db_faults (snd (db_call w)))"
  by (cases "db_faults w") auto

lemma handle_retry_created:
  assumes "cycle_read payment w c d"
    and "resolve_action c (getTimeBucket d) (retry_sequence_nb payment) = Some action"
    and "action = instant \<or> action = scheduled_friday \<or> action = scheduled_friday_eom"
    and "handle_retry payment w = (Inr s, w')"
  shows "payments w' = payments w @ [s]"
    and "retry_prev_payment_id s = Some (payment_id payment)"
    and "retry_sequence_nb s = retry_sequence_nb payment + 1"
    and "status s = SCHEDULED"
    and "retry_annotation s
          = Some (action_name action @ '' retry of payment '' @ payment_id payment)"
    and "track s = Some (retryTrack c)"
    and "retry_routing_ctx s = retryRoutingCtx payment c (getTimeBucket d)"
    and "now w \<le> payment_date s"
proof -
  obtain cycle where "handle_retry payment w
      = create_retry_payment payment c cycle d (getTimeBucket d) action (snd (db_call w))"
    using assms(1-3) by (rule handle_retry_create)
  with assms(4) have "create_retry_payment payment c cycle d (getTimeBucket d) action
      (snd (db_call w)) = (Inr s, w')" by simp
  from create_retry_payment_result(3) [OF this refl]
  show "payments w' = payments w @ [s]"
    and "retry_prev_payment_id s = Some (payment_id payment)"
    and "retry_sequence_nb s = retry_sequence_nb payment + 1"
    and "status s = SCHEDULED"
    and "retry_annotation s
          = Some (action_name action @ '' retry of payment '' @ payment_id payment)"
    and "track s = Some (retryTrack c)"
    and "retry_routing_ctx s = retryRoutingCtx payment c (getTimeBucket d)"
    and "now w \<le> payment_date s"
    by simp_all
qed

lemma handle_retry_not_created:
  assumes "cycle_read payment w c d"
    and "resolve_action c (getTimeBucket d) (retry_sequence_nb payment) = Some action"
    and "action = instant \<or> action = scheduled_friday \<or> action = scheduled_friday_eom"
    and "handle_retry payment w = (Inl e, w')"
  shows "e = ServerInternalError ''Failed to create retry payment''" and "payments w' = payments w"
proof -
  obtain cycle where "handle_retry payment w
      = create_retry_payment payment c cycle d (getTimeBucket d) action (snd (db_call w))"
    using assms(1-3) by (rule handle_retry_create)
  with assms(4) have "create_retry_payment payment c cycle d (getTimeBucket d) action
      (snd (db_call w)) = (Inl e, w')" by simp
  from create_retry_payment_result(2) [OF this refl]
  show "e = ServerInternalError ''Failed to create retry payment''" and "payments w' = payments w"
    by simp_all
qed

lemma handle_retry_creates:
  assumes "cycle_read payment w c d"
    and "resolve_action c (getTimeBucket d) (retry_sequence_nb payment) = Some action"
    and "action = instant \<or> action = scheduled_friday \<or> action = scheduled_friday_eom"
    and "True \<notin> set (db_faults w)"
  obtains s w' where "handle_retry payment w = (Inr s, w')"
proof -
  obtain cycle where h: "handle_retry payment w
      = create_retry_payment payment c cycle d (getTimeBucket d) action (snd (db_call w))"
    using assms(1-3) by (rule handle_retry_create)
  from create_retry_payment_succeeds [OF tail_no_faults [OF assms(4)]]
  obtain s w' where "create_retry_payment payment c cycle d (getTimeBucket d) action
      (snd (db_call w)) = (Inr s, w')" by blast
  with h have "handle_retry payment w = (Inr s, w')" by simp
  then show thesis by (rule that)
qed

lemma yields_created:
  assumes "cycle_read payment w c d"
    and "resolve_action c (getTimeBucket d) (retry_sequence_nb payment) = Some action"
    and "action = instant \<or> action = scheduled_friday \<or> action = scheduled_friday_eom"
    and "True \<notin> set (db_faults w)"
    and "x \<noteq> NoChange" and "directive_track x = Some (retryTrack c)"
  shows "created_for action (Some x) payment w (handle_retry payment w)"
proof -
  obtain s w' where h: "handle_retry payment w = (Inr s, w')"
    using assms(1-4) by (rule handle_retry_creates)
  from handle_retry_created(1,5,6) [OF assms(1-3) h] assms(5,6)
  show ?thesis by (simp add: created_for_def h)
qed

lemma yields_backoff:
  assumes "cycle_read payment w c d"
    and "resolve_action c (getTimeBucket d) (retry_sequence_nb payment) = Some backoff"
  shows "yields payment w (Rule_Backoff, Some NoChange)"
  by (simp add: yields_def handle_retry_backoff [OF assms])

lemma yields_not_possible:
  assumes "cycle_read payment w c d"
    and "resolve_action c (getTimeBucket d) (retry_sequence_nb payment) = Some not_possible"
  shows "yields payment w (Rule_NotPossible, None)"
  using assms(1) by (simp add: yields_def handle_retry_not_possible [OF assms] cycle_read_def)

section \<open>The claims on the resolution\<close>

text \<open>
  C1, as amended. For every code and bucket of the rule table, when the billing cycle
  is read, no database call throws and neither override on the retry count triggers,
  the resolution yields the tabulated action and directive, except that a cell
  tabulated \<open>AlertAndBackoff\<close> yields plain \<open>Backoff\<close>: the handler has no alert.
\<close>

theorem retry_follows_rule_table_without_alert:
  assumes "cycle_read payment w c d"
    and "True \<notin> set (db_faults w)"
    and "rule_table c (getTimeBucket d) = Some (a, dir)"
    and "\<not> processor_exclusion_triggers c (getTimeBucket d) (retry_sequence_nb payment)"
    and "\<not> forced_backoff_triggers c (getTimeBucket d) (retry_sequence_nb payment)"
  shows "yields payment w (without_alert a, dir)"
proof -
  have r: "resolve_action c (getTimeBucket d) (retry_sequence_nb payment)
      = Some (rule_retry_action a)"
    using resolve_action_unforced [OF assms(5)] rule_table_action [OF assms(3)] by simp
  show ?thesis
  proof (cases "a = Rule_Instant \<or> a = Rule_ScheduleFriday \<or> a = Rule_ScheduleFridayEOM")
    case True
    from rule_table_directive(1) [OF assms(3) True]
    obtain x where x: "dir = Some x" "x \<noteq> NoChange" "directive_track x = Some (retryTrack c)"
      by blast
    have "rule_retry_action a = instant \<or> rule_retry_action a = scheduled_friday
        \<or> rule_retry_action a = scheduled_friday_eom"
      using True by auto
    from yields_created [OF assms(1) r this assms(2) x(2,3)] True
    show ?thesis by (auto simp: yields_def x(1))
  next
    case False
    show ?thesis
    proof (cases "a = Rule_NotPossible")
      case True
      with r rule_table_directive(3) [OF assms(3)] yields_not_possible [OF assms(1)]
      show ?thesis by simp
    next
      case False
      with \<open>\<not> (a = Rule_Instant \<or> a = Rule_ScheduleFriday \<or> a = Rule_ScheduleFridayEOM)\<close>
      have b: "a = Rule_AlertAndBackoff \<or> a = Rule_Backoff" by (cases a) simp_all
      then have "rule_retry_action a = backoff" "without_alert a = Rule_Backoff" by auto
      with r rule_table_directive(2) [OF assms(3) b] yields_backoff [OF assms(1)]
      show ?thesis by simp
    qed
  qed
qed

text \<open>
  The hypotheses hold for code 701 at 10 days overdue, where the rule is
  \<open>ScheduleFriday\<close> with bank first and then card.
\<close>

theorem retry_follows_rule_table_witness:
  "cycle_read (sample_payment 701 0) (sample_world 701 0 10) 701 10
   \<and> rule_table 701 (getTimeBucket 10) = Some (Rule_ScheduleFriday, Some TryBankThenCard)
   \<and> yields (sample_payment 701 0) (sample_world 701 0 10)
       (Rule_ScheduleFriday, Some TryBankThenCard)"
proof -
  have 1: "cycle_read (sample_payment 701 0) (sample_world 701 0 10) 701 10"
    by (rule sample_cycle_read)
  have 2: "True \<notin> set (db_faults (sample_world 701 0 10))" by (rule sample_no_faults)
  have 3: "rule_table 701 (getTimeBucket 10) = Some (Rule_ScheduleFriday, Some TryBankThenCard)"
    by (simp add: rule_table_def getTimeBucket_def)
  have 4: "\<not> processor_exclusion_triggers 701 (getTimeBucket 10)
      (retry_sequence_nb (sample_payment 701 0))"
    by (simp add: processor_exclusion_triggers_def getTimeBucket_def)
  have 5: "\<not> forced_backoff_triggers 701 (getTimeBucket 10)
      (retry_sequence_nb (sample_payment 701 0))"
    by (simp add: forced_backoff_triggers_def getTimeBucket_def)
  from retry_follows_rule_table_without_alert [OF 1 2 3 4 5] 1 3 show ?thesis by simp
qed

text \<open>
  C1 as stated fails: code 903 at 0 days overdue is tabulated \<open>AlertAndBackoff\<close>, and the
  resolution does not yield it.
\<close>

theorem alert_rule_not_followed_counterexample:
  "rule_table 903 (getTimeBucket 0) = Some (Rule_AlertAndBackoff, Some NoChange)
   \<and> \<not> yields (sample_payment 903 0) (sample_world 903 0 0)
         (Rule_AlertAndBackoff, Some NoChange)"
  by (simp add: rule_table_def getTimeBucket_def yields_def handle_retry_alerts)

text \<open>
  C3, as amended. For a code tabulated \<open>AlertAndBackoff\<close> (903, 440, 603 to 607 and
  777 in the buckets 0-30D and 31-60D) the resolution returns the failed payment
  unchanged, creates no payment and sends no alert; for a code tabulated \<open>Backoff\<close> it
  does the same, so no alert is sent either.
\<close>

theorem alert_codes_back_off_without_alert:
  assumes "cycle_read payment w c d"
    and "rule_table c (getTimeBucket d) = Some (a, dir)"
    and "a = Rule_AlertAndBackoff \<or> a = Rule_Backoff"
  shows "fst (handle_retry payment w) = Inr payment
    \<and> payments (snd (handle_retry payment w)) = payments w
    \<and> alerts (snd (handle_retry payment w)) = alerts w"
proof -
  have "getRetryAction c (getTimeBucket d) = Some backoff"
    using rule_table_action [OF assms(2)] assms(3) by auto
  then have "resolve_action c (getTimeBucket d) (retry_sequence_nb payment) = Some backoff"
    by (simp add: resolve_action_def Let_def)
  from handle_retry_backoff [OF assms(1) this] show ?thesis by simp
qed

text \<open>
  The hypotheses hold for code 440 at 45 days overdue, tabulated \<open>AlertAndBackoff\<close>.
\<close>

theorem alert_codes_back_off_witness:
  "cycle_read (sample_payment 440 3) (sample_world 440 3 45) 440 45
   \<and> rule_table 440 (getTimeBucket 45) = Some (Rule_AlertAndBackoff, Some NoChange)
   \<and> fst (handle_retry (sample_payment 440 3) (sample_world 440 3 45)) = Inr (sample_payment 440 3)
   \<and> payments (snd (handle_retry (sample_payment 440 3) (sample_world 440 3 45)))
       = payments (sample_world 440 3 45)
   \<and> alerts (snd (handle_retry (sample_payment 440 3) (sample_world 440 3 45)))
       = alerts (sample_world 440 3 45)"
proof -
  have 1: "cycle_read (sample_payment 440 3) (sample_world 440 3 45) 440 45"
    by (rule sample_cycle_read)
  have 2: "rule_table 440 (getTimeBucket 45) = Some (Rule_AlertAndBackoff, Some NoChange)"
    by (simp add: rule_table_def getTimeBucket_def)
  from alert_codes_back_off_without_alert [OF 1 2] 1 2 show ?thesis by simp
qed

text \<open>
  C3 as stated fails: for code 903 at 0 days overdue, tabulated \<open>AlertAndBackoff\<close>, the
  resolution sends no alert.
\<close>

theorem alert_code_sends_no_alert_counterexample:
  "rule_table 903 (getTimeBucket 0) = Some (Rule_AlertAndBackoff, Some NoChange)
   \<and> \<not> alerts (sample_world 903 0 0)
        < alerts (snd (handle_retry (sample_payment 903 0) (sample_world 903 0 0)))"
  by (simp add: rule_table_def getTimeBucket_def handle_retry_alerts)

text \<open>
  C4. When the action is \<open>instant\<close>, \<open>scheduled_friday\<close> or \<open>scheduled_friday_eom\<close>, the
  payment that \<open>handle_retry\<close> returns is the one new payment of the store; it
  references the failed payment, its retry sequence number is one more, its status is
  \<open>SCHEDULED\<close> and its date is not before the clock reading it was computed from. The
  only other outcome is the failure of \<open>Payment.create\<close> on a database fault, with no new
  payment.
\<close>

theorem successor_lineage_and_date:
  assumes "cycle_read payment w c d"
    and "resolve_action c (getTimeBucket d) (retry_sequence_nb payment) = Some action"
    and "action = instant \<or> action = scheduled_friday \<or> action = scheduled_friday_eom"
  shows "(case handle_retry payment w of
            (Inr s, w') \<Rightarrow>
              payments w' = payments w @ [s]
              \<and> retry_prev_payment_id s = Some (payment_id payment)
              \<and> retry_sequence_nb s = retry_sequence_nb payment + 1
              \<and> status s = SCHEDULED
              \<and> now w \<le> payment_date s
          | (Inl e, w') \<Rightarrow>
              e = ServerInternalError ''Failed to create retry payment''
              \<and> payments w' = payments w \<and> True \<in> set (db_faults w))"
proof (cases "handle_retry payment w")
  case (Pair res w')
  show ?thesis
  proof (cases res)
    case (Inl e)
    with Pair have h: "handle_retry payment w = (Inl e, w')" by simp
    have "True \<in> set (db_faults w)"
    proof (rule ccontr)
      assume "True \<notin> set (db_faults w)"
      with assms obtain s w'' where "handle_retry payment w = (Inr s, w'')"
        by (rule handle_retry_creates)
      with h show False by simp
    qed
    with handle_retry_not_created [OF assms h] show ?thesis by (simp add: h)
  next
    case (Inr s)
    with Pair have h: "handle_retry payment w = (Inr s, w')" by simp
    from handle_retry_created(1,2,3,4,8) [OF assms h] show ?thesis by (simp add: h)
  qed
qed

text \<open>
  The hypotheses hold for code 601 at 20 days overdue, rescheduled to the last Friday
  of the month.
\<close>

theorem successor_lineage_and_date_witness:
  "cycle_read (sample_payment 601 2) (sample_world 601 2 20) 601 20
   \<and> resolve_action 601 (getTimeBucket 20) (retry_sequence_nb (sample_payment 601 2))
       = Some scheduled_friday_eom
   \<and> (case handle_retry (sample_payment 601 2) (sample_world 601 2 20) of
         (Inr s, w') \<Rightarrow>
           payments w' = payments (sample_world 601 2 20) @ [s]
           \<and> retry_prev_payment_id s = Some (payment_id (sample_payment 601 2))
           \<and> retry_sequence_nb s = retry_sequence_nb (sample_payment 601 2) + 1
           \<and> status s = SCHEDULED
           \<and> now (sample_world 601 2 20) \<le> payment_date s
       | (Inl e, w') \<Rightarrow>
           e = ServerInternalError ''Failed to create retry payment''
           \<and> payments w' = payments (sample_world 601 2 20)
           \<and> True \<in> set (db_faults (sample_world 601 2 20)))"
proof -
  have 1: "cycle_read (sample_payment 601 2) (sample_world 601 2 20) 601 20"
    by (rule sample_cycle_read)
  have 2: "resolve_action 601 (getTimeBucket 20) (retry_sequence_nb (sample_payment 601 2))
       = Some scheduled_friday_eom"
    by (simp add: resolve_action_def getRetryAction_def getTimeBucket_def
        NOT_POSSIBLE_CODES_def)
  have 3: "scheduled_friday_eom = instant \<or> scheduled_friday_eom = scheduled_friday
      \<or> scheduled_friday_eom = scheduled_friday_eom" by simp
  from successor_lineage_and_date [OF 1 2 3] 1 2 show ?thesis by (intro conjI)
qed

text \<open>
  C5. In the bucket 31-60D, for the codes 904, 441, 601, 701 and 706, when the billing
  cycle is read and no database call throws, the resolution yields the tabulated rule
  (the action is unchanged), and the routing context of the successor is that of the
  failed payment followed by \<open>exclude_stripe\<close> when the retry count is above 8; with a
  retry count of 8 or less nothing is added.
\<close>

theorem stripe_exclusion_after_eight_retries:
  assumes "cycle_read payment w c d"
    and "getTimeBucket d = B_31_60D"
    and "c \<in> set [904, 441, 601, 701, 706]"
    and "True \<notin> set (db_faults w)"
  shows "(case rule_table c B_31_60D of
            None \<Rightarrow> False
          | Some rule \<Rightarrow> yields payment w rule)
    \<and> (case fst (handle_retry payment w) of
          Inl e \<Rightarrow> False
        | Inr s \<Rightarrow>
            retry_routing_ctx s
              = (if retry_sequence_nb payment > 8
                 then retry_routing_ctx payment @ [''exclude_stripe'']
                 else retry_routing_ctx payment))"
proof -
  obtain a dir where t: "rule_table c (getTimeBucket d) = Some (a, dir)"
    and a: "a = Rule_Instant \<or> a = Rule_ScheduleFriday \<or> a = Rule_ScheduleFridayEOM"
    using assms(2,3) by (auto simp: rule_table_def)
  have nf: "\<not> forced_backoff_triggers c (getTimeBucket d) (retry_sequence_nb payment)"
    by (simp add: forced_backoff_triggers_def assms(2))
  have r: "resolve_action c (getTimeBucket d) (retry_sequence_nb payment)
      = Some (rule_retry_action a)"
    using resolve_action_unforced [OF nf] rule_table_action [OF t] by simp
  have ra: "rule_retry_action a = instant \<or> rule_retry_action a = scheduled_friday
      \<or> rule_retry_action a = scheduled_friday_eom"
    using a by auto
  from rule_table_directive(1) [OF t a]
  obtain x where x: "dir = Some x" "x \<noteq> NoChange" "directive_track x = Some (retryTrack c)"
    by blast
  have y: "yields payment w (a, dir)"
    using yields_created [OF assms(1) r ra assms(4) x(2,3)] a by (auto simp: yields_def x(1))
  obtain s w' where h: "handle_retry payment w = (Inr s, w')"
    using assms(1) r ra assms(4) by (rule handle_retry_creates)
  have "retry_routing_ctx s = retryRoutingCtx payment c (getTimeBucket d)"
    by (rule handle_retry_created(7) [OF assms(1) r ra h])
  then have "retry_routing_ctx s
      = (if retry_sequence_nb payment > 8
         then retry_routing_ctx payment @ [''exclude_stripe'']
         else retry_routing_ctx payment)"
    using assms(2,3) by (simp add: retryRoutingCtx_def CODES_WITH_STRIPE_EXCLUSION_def)
  with y t show ?thesis by (simp add: h assms(2))
qed

text \<open>
  The hypotheses hold for code 701 at 45 days overdue: with 9 retries the routing
  context is \<open>exclude_stripe\<close>, with 8 retries it is empty, and the rule is
  \<open>ScheduleFriday\<close> in both.
\<close>

theorem stripe_exclusion_witness:
  "cycle_read (sample_payment 701 9) (sample_world 701 9 45) 701 45
   \<and> getTimeBucket 45 = B_31_60D
   \<and> yields (sample_payment 701 9) (sample_world 701 9 45)
       (Rule_ScheduleFriday, Some TryBankThenCard)
   \<and> (case fst (handle_retry (sample_payment 701 9) (sample_world 701 9 45)) of
         Inl e \<Rightarrow> False
       | Inr s \<Rightarrow> retry_routing_ctx s = [''exclude_stripe''])
   \<and> (case fst (handle_retry (sample_payment 701 8) (sample_world 701 8 45)) of
         Inl e \<Rightarrow> False
       | Inr s \<Rightarrow> retry_routing_ctx s = [])"
proof -
  have b: "getTimeBucket 45 = B_31_60D" by (simp add: getTimeBucket_def)
  have c: "(701::int) \<in> set [904, 441, 601, 701, 706]" by simp
  have t: "rule_table 701 B_31_60D = Some (Rule_ScheduleFriday, Some TryBankThenCard)"
    by (simp add: rule_table_def)
  have n: "retry_sequence_nb (sample_payment 701 9) = 9" "retry_sequence_nb (sample_payment 701 8) = 8"
    "retry_routing_ctx (sample_payment 701 9) = []" "retry_routing_ctx (sample_payment 701 8) = []"
    by (simp_all add: sample_payment_def)
  from stripe_exclusion_after_eight_retries [OF sample_cycle_read b c sample_no_faults, of 9]
    stripe_exclusion_after_eight_retries [OF sample_cycle_read b c sample_no_faults, of 8]
    sample_cycle_read [of 701 9 45] b
  show ?thesis by (simp add: t n split: sum.splits)
qed

text \<open>
  C6. In the bucket 61-180D, for the codes 441, 701 and 706, when the billing cycle is
  read and no database call throws: with a retry count above 12 the resolution yields
  \<open>Backoff\<close> with no change of payment method (the failed payment is returned unchanged
  and no payment is created, so there is neither a date nor a routing context); with a
  retry count of 12 or less it yields \<open>ScheduleFridayEOM\<close>, bank first and then card.
\<close>

theorem forced_backoff_after_twelve_retries:
  assumes "cycle_read payment w c d"
    and "getTimeBucket d = B_61_180D"
    and "c \<in> set [441, 701, 706]"
    and "True \<notin> set (db_faults w)"
  shows "yields payment w
    (if retry_sequence_nb payment > 12 then (Rule_Backoff, Some NoChange)
     else (Rule_ScheduleFridayEOM, Some TryBankThenCard))"
proof (cases "retry_sequence_nb payment > 12")
  case True
  then have "forced_backoff_triggers c (getTimeBucket d) (retry_sequence_nb payment)"
    using assms(2,3) by (simp add: forced_backoff_triggers_def)
  from yields_backoff [OF assms(1) resolve_action_forced [OF this]] True show ?thesis by simp
next
  case False
  then have nf: "\<not> forced_backoff_triggers c (getTimeBucket d) (retry_sequence_nb payment)"
    by (simp add: forced_backoff_triggers_def)
  have t: "rule_table c (getTimeBucket d) = Some (Rule_ScheduleFridayEOM, Some TryBankThenCard)"
    using assms(2,3) by (auto simp: rule_table_def)
  have r: "resolve_action c (getTimeBucket d) (retry_sequence_nb payment) = Some scheduled_friday_eom"
    using resolve_action_unforced [OF nf] rule_table_action [OF t] by simp
  have x: "directive_track TryBankThenCard = Some (retryTrack c)"
    using assms(3) by (auto simp: retryTrack_def)
  have "created_for scheduled_friday_eom (Some TryBankThenCard) payment w (handle_retry payment w)"
    by (rule yields_created [OF assms(1) r _ assms(4) _ x]) simp_all
  with False show ?thesis by (simp add: yields_def)
qed

text \<open>
  The hypotheses hold for code 441 at 90 days overdue: \<open>Backoff\<close> with 13 retries,
  \<open>ScheduleFridayEOM\<close> with 12.
\<close>

theorem forced_backoff_witness:
  "cycle_read (sample_payment 441 13) (sample_world 441 13 90) 441 90
   \<and> getTimeBucket 90 = B_61_180D
   \<and> yields (sample_payment 441 13) (sample_world 441 13 90) (Rule_Backoff, Some NoChange)
   \<and> yields (sample_payment 441 12) (sample_world 441 12 90)
       (Rule_ScheduleFridayEOM, Some TryBankThenCard)"
proof -
  have b: "getTimeBucket 90 = B_61_180D" by (simp add: getTimeBucket_def)
  have c: "(441::int) \<in> set [441, 701, 706]" by simp
  have n: "retry_sequence_nb (sample_payment 441 13) = 13"
    "retry_sequence_nb (sample_payment 441 12) = 12"
    by (simp_all add: sample_payment_def)
  from forced_backoff_after_twelve_retries [OF sample_cycle_read b c sample_no_faults, of 13]
    forced_backoff_after_twelve_retries [OF sample_cycle_read b c sample_no_faults, of 12]
    sample_cycle_read [of 441 13 90] b
  show ?thesis by (simp add: n)
qed

lemma messages_differ: "not_possible_message c \<noteq> no_strategy_message c' b"
  by (simp add: not_possible_message_def no_strategy_message_def)

text \<open>
  C10. When the billing cycle is read (whatever its bucket), a code of the set 442,
  443, 444, 445, 613, 615, 616, 640, 710 makes \<open>handle_retry\<close> fail with the error of a
  retry that is not possible, and no payment is created; a code outside the rule table
  makes it fail with the error of a missing strategy; the two errors are never equal.
\<close>

theorem not_possible_codes_fail_distinctly:
  assumes "cycle_read payment w c d"
  shows "(c \<in> set [442, 443, 444, 445, 613, 615, 616, 640, 710] \<longrightarrow>
            fst (handle_retry payment w) = Inl (ServerInternalError (not_possible_message c))
            \<and> payments (snd (handle_retry payment w)) = payments w)
    \<and> (rule_table c (getTimeBucket d) = None \<longrightarrow>
            fst (handle_retry payment w)
              = Inl (ServerInternalError (no_strategy_message c (getTimeBucket d)))
            \<and> payments (snd (handle_retry payment w)) = payments w)
    \<and> ServerInternalError (not_possible_message c')
        \<noteq> ServerInternalError (no_strategy_message c'' b)"
proof (intro conjI impI)
  assume "c \<in> set [442, 443, 444, 445, 613, 615, 616, 640, 710]"
  then have "resolve_action c (getTimeBucket d) (retry_sequence_nb payment) = Some not_possible"
    by (auto simp: resolve_action_def getRetryAction_def NOT_POSSIBLE_CODES_def
        CODES_WITH_RETRY_LIMIT_12_def)
  from handle_retry_not_possible [OF assms this]
  show "fst (handle_retry payment w) = Inl (ServerInternalError (not_possible_message c))"
    and "payments (snd (handle_retry payment w)) = payments w"
    by simp_all
next
  assume "rule_table c (getTimeBucket d) = None"
  from handle_retry_unknown [OF assms rule_table_None [OF this]]
  show "fst (handle_retry payment w)
      = Inl (ServerInternalError (no_strategy_message c (getTimeBucket d)))"
    and "payments (snd (handle_retry payment w)) = payments w"
    by simp_all
next
  show "ServerInternalError (not_possible_message c')
      \<noteq> ServerInternalError (no_strategy_message c'' b)"
    by (simp add: messages_differ)
qed

text \<open>
  The hypotheses hold for code 444 at 200 days overdue, and for code 999, which is
  outside the rule table, at 5 days overdue.
\<close>

theorem not_possible_codes_witness:
  "cycle_read (sample_payment 444 0) (sample_world 444 0 200) 444 200
   \<and> fst (handle_retry (sample_payment 444 0) (sample_world 444 0 200))
       = Inl (ServerInternalError (not_possible_message 444))
   \<and> payments (snd (handle_retry (sample_payment 444 0) (sample_world 444 0 200)))
       = payments (sample_world 444 0 200)
   \<and> rule_table 999 (getTimeBucket 5) = None
   \<and> fst (handle_retry (sample_payment 999 0) (sample_world 999 0 5))
       = Inl (ServerInternalError (no_strategy_message 999 (getTimeBucket 5)))
   \<and> payments (snd (handle_retry (sample_payment 999 0) (sample_world 999 0 5)))
       = payments (sample_world 999 0 5)"
proof -
  have t: "rule_table 999 (getTimeBucket 5) = None" by (simp add: rule_table_def)
  from not_possible_codes_fail_distinctly [OF sample_cycle_read, of 444 0 200]
    not_possible_codes_fail_distinctly [OF sample_cycle_read, of 999 0 5]
    sample_cycle_read [of 444 0 200] t
  show ?thesis by simp
qed

text \<open>
  What \<open>handle_failed_pull_funds\<close> stores as days overdue: for a payment that is not
  \<open>FAILED\<close> yet, when no database call throws, the row of the payment has a billing
  cycle and the cycle is in the store, the cycle ends up with the clamped number of
  days between the end of the cycle and the reference date.
\<close>

lemma no_faults_tl: "True \<notin> set fs \<Longrightarrow> True \<notin> set (tl fs)"
  by (cases fs) auto

lemma no_faults_call: "True \<notin> set (db_faults w) \<Longrightarrow> \<not> fst (db_call w)"
  by (auto simp: db_call_fault split: list.splits)

lemma find_map_update:
  assumes "find (\<lambda>x. k x = c) xs = Some b" and "\<And>q. k (f q) = k q"
  shows "find (\<lambda>x. k x = c) (map (\<lambda>q. if k q = c then f q else q) xs) = Some (f b)"
  using assms by (induction xs) (auto split: if_splits)

lemma Payment_update_world:
  "billing_cycles (snd (Payment_update i f w)) = billing_cycles w"
  "db_faults (snd (Payment_update i f w)) = tl (db_faults w)"
proof -
  obtain fl w1 where e: "db_call w = (fl, w1)" by (cases "db_call w")
  have w1: "billing_cycles w1 = billing_cycles w" "db_faults w1 = tl (db_faults w)"
    using db_call_fields(3,7) [of w] by (simp_all add: e)
  consider (same) "snd (Payment_update i f w) = w1"
    | (table) v where "snd (Payment_update i f w) = w1\<lparr>payments := v\<rparr>"
    by (cases fl; cases "find (\<lambda>p. payment_id p = i) (payments w1)")
      (simp_all add: Payment_update_def e)
  note c = this
  then show "billing_cycles (snd (Payment_update i f w)) = billing_cycles w"
    using w1 by cases simp_all
  from c show "db_faults (snd (Payment_update i f w)) = tl (db_faults w)"
    using w1 by cases simp_all
qed

lemma PaymentMethod_update_world:
  "billing_cycles (snd (PaymentMethod_update i f w)) = billing_cycles w"
  "db_faults (snd (PaymentMethod_update i f w)) = tl (db_faults w)"
proof -
  obtain fl w1 where e: "db_call w = (fl, w1)" by (cases "db_call w")
  have w1: "billing_cycles w1 = billing_cycles w" "db_faults w1 = tl (db_faults w)"
    using db_call_fields(3,7) [of w] by (simp_all add: e)
  consider (same) "snd (PaymentMethod_update i f w) = w1"
    | (table) v where "snd (PaymentMethod_update i f w) = w1\<lparr>payment_methods := v\<rparr>"
    by (cases fl; cases "find (\<lambda>m. method_id m = i) (payment_methods w1)")
      (simp_all add: PaymentMethod_update_def e)
  note c = this
  then show "billing_cycles (snd (PaymentMethod_update i f w)) = billing_cycles w"
    using w1 by cases simp_all
  from c show "db_faults (snd (PaymentMethod_update i f w)) = tl (db_faults w)"
    using w1 by cases simp_all
qed

lemma CustomerAccount_update_world:
  "billing_cycles (snd (CustomerAccount_update i f w)) = billing_cycles w"
  "db_faults (snd (CustomerAccount_update i f w)) = tl (db_faults w)"
proof -
  obtain fl w1 where e: "db_call w = (fl, w1)" by (cases "db_call w")
  have w1: "billing_cycles w1 = billing_cycles w" "db_faults w1 = tl (db_faults w)"
    using db_call_fields(3,7) [of w] by (simp_all add: e)
  consider (same) "snd (CustomerAccount_update i f w) = w1"
    | (table) v where "snd (CustomerAccount_update i f w) = w1\<lparr>accounts := v\<rparr>"
    by (cases fl; cases "find (\<lambda>a. customer_account_id a = i) (accounts w1)")
      (simp_all add: CustomerAccount_update_def e)
  note c = this
  then show "billing_cycles (snd (CustomerAccount_update i f w)) = billing_cycles w"
    using w1 by cases simp_all
  from c show "db_faults (snd (CustomerAccount_update i f w)) = tl (db_faults w)"
    using w1 by cases simp_all
qed

lemma Payment_update_found:
  assumes "True \<notin> set (db_faults w)" and "find (\<lambda>p. payment_id p = i) (payments w) = Some p"
  shows "fst (Payment_update i f w) = Inr (f p)"
proof -
  obtain fl w1 where e: "db_call w = (fl, w1)" by (cases "db_call w")
  have "\<not> fl" using no_faults_call [OF assms(1)] by (simp add: e)
  moreover have "payments w1 = payments w" using db_call_fields(1) [of w] by (simp add: e)
  ultimately show ?thesis by (simp add: Payment_update_def e assms(2))
qed

lemma BillingCycle_update_found:
  assumes "True \<notin> set (db_faults w)" and "find (\<lambda>x. cycle_id x = c) (billing_cycles w) = Some b"
    and "\<And>q. cycle_id (f q) = cycle_id q"
  shows "find (\<lambda>x. cycle_id x = c) (billing_cycles (snd (BillingCycle_update c f w))) = Some (f b)"
proof -
  obtain fl w1 where e: "db_call w = (fl, w1)" by (cases "db_call w")
  have "\<not> fl" using no_faults_call [OF assms(1)] by (simp add: e)
  moreover have "billing_cycles w1 = billing_cycles w"
    using db_call_fields(3) [of w] by (simp add: e)
  ultimately show ?thesis
    using find_map_update [of cycle_id c "billing_cycles w" b f, OF assms(2,3)]
    by (simp add: BillingCycle_update_def e assms(2))
qed

lemma find_cycle_id: "find (\<lambda>x. cycle_id x = c) xs = Some b \<Longrightarrow> cycle_id b = c"
  by (induction xs) (auto split: if_splits)

lemma handle_failed_pull_funds_stores_days_overdue:
  assumes nf: "status payment0 \<noteq> FAILED"
    and faults: "True \<notin> set (db_faults w0)"
    and row: "find (\<lambda>p. payment_id p = payment_id payment0) (payments w0) = Some p"
    and cy: "billing_cycle_id p = Some cycle" "cycle \<noteq> []"
    and b: "find (\<lambda>x. cycle_id x = cycle) (billing_cycles w0) = Some b"
  shows "find (\<lambda>x. cycle_id x = cycle)
           (billing_cycles (snd (handle_failed_pull_funds sc payment0 code ref_date_arg w0)))
         = Some (b\<lparr>cycle_days_overdue :=
                    Some (overdue_days (case ref_date_arg of None \<Rightarrow> now w0 | Some d \<Rightarrow> d)
                            (end_date b))\<rparr>)"
proof -
  define upd :: "Payment \<Rightarrow> Payment" where "upd = (\<lambda>p. p\<lparr>status := FAILED, payment_code := Some code,
      fail_reason := Some (get_fail_reason_from_code sc code)\<rparr>)"
  define w where "w = logger (Info ''Handling Failed PULL funds'') w0"
  define payment where "payment = upd p"
  define w1 where "w1 = snd (Payment_update (payment_id payment0) upd w)"
  have w: "billing_cycles w = billing_cycles w0" "True \<notin> set (db_faults w)"
    "payments w = payments w0"
    using faults by (simp_all add: w_def)
  have u: "Payment_update (payment_id payment0) upd w = (Inr payment, w1)"
    using Payment_update_found [OF w(2), of "payment_id payment0" p upd] row
    by (cases "Payment_update (payment_id payment0) upd w") (simp add: w(3) payment_def w1_def)
  have w1: "billing_cycles w1 = billing_cycles w0" "True \<notin> set (db_faults w1)"
    using w(1,2) by (simp_all add: w1_def Payment_update_world no_faults_tl)
  define w2 where "w2 =
     (case payment_method_id payment of
        None \<Rightarrow> w1
      | Some method \<Rightarrow>
          if is_hard_decline_code sc code \<and> method \<noteq> []
          then snd (PaymentMethod_update method
                 (\<lambda>m. m\<lparr>method_status := INVALID,
                         method_memo :=
                           Some (''Invalidated by system due to hard decline code: ''
                                  @ string_of_int code)\<rparr>)
                 (logger (Info ''Encountered hard decline, invalidating payment method'') w1))
          else w1)"
  have w2: "billing_cycles w2 = billing_cycles w0" "True \<notin> set (db_faults w2)"
    using w1 by (simp_all add: w2_def PaymentMethod_update_world no_faults_tl split: option.splits)
  define w3 where "w3 =
     (case CustomerAccount_fetch_by_id (account_id payment) w2 of
        (Inr (Some account), w') \<Rightarrow>
          logger (Info ''Updated account metrics for failed payment'')
            (snd (CustomerAccount_update (customer_account_id account)
                   (\<lambda>a. a\<lparr>last_failed_payment_amount := Some (amount payment),
                           last_failed_payment_date := Some (now w')\<rparr>) w'))
      | (_, w') \<Rightarrow> w')"
  have w3: "billing_cycles w3 = billing_cycles w0" "True \<notin> set (db_faults w3)"
    using w2
    by (simp_all add: w3_def CustomerAccount_fetch_by_id_eq CustomerAccount_update_world
        no_faults_tl split: option.splits)
  let ?ref_date = "(case ref_date_arg of None \<Rightarrow> now w0 | Some d \<Rightarrow> d)"
  define w4 where "w4 =
     (case BillingCycle_fetch_by_id cycle w3 of
        (Inr (Some billing_cycle), w') \<Rightarrow>
          logger (Info ''Updated billing cycle days_overdue'')
            (snd (BillingCycle_update (cycle_id billing_cycle)
                   (\<lambda>b. b\<lparr>cycle_days_overdue :=
                             Some (overdue_days ?ref_date (end_date billing_cycle))\<rparr>)
                   w'))
      | (_, w') \<Rightarrow> w')"
  have pc: "billing_cycle_id payment = Some cycle"
    by (simp add: payment_def upd_def cy)
  have r: "handle_failed_pull_funds sc payment0 code ref_date_arg w0 = (Inr payment, w4)"
    unfolding handle_failed_pull_funds_def Let_def
    using nf u [unfolded upd_def w_def] pc cy(2)
    by (simp add: w4_def w3_def w2_def)
  have f: "BillingCycle_fetch_by_id cycle w3 = (Inr (Some b), snd (db_call w3))"
    using no_faults_call [OF w3(2)] b by (simp add: BillingCycle_fetch_by_id_eq w3(1))
  have t: "True \<notin> set (db_faults (snd (db_call w3)))" using w3(2) by (rule tail_no_faults)
  have fb: "find (\<lambda>x. cycle_id x = cycle) (billing_cycles (snd (db_call w3))) = Some b"
    using b by (simp add: w3(1))
  have "find (\<lambda>x. cycle_id x = cycle) (billing_cycles w4)
      = Some (b\<lparr>cycle_days_overdue := Some (overdue_days ?ref_date (end_date b))\<rparr>)"
    using BillingCycle_update_found [OF t fb,
        of "\<lambda>x. x\<lparr>cycle_days_overdue := Some (overdue_days ?ref_date (end_date b))\<rparr>"]
    by (simp add: w4_def f find_cycle_id [OF b])
  then show ?thesis by (simp add: r)
qed

text \<open>
  C7, as amended. The classifier raises no error: every negative number of days
  overdue is put in the bucket 0-30D. And \<open>handle_failed_pull_funds\<close> clamps: the
  difference in days is 0 when the reference date is before the end of the billing
  cycle, and 0 is what the handler then stores as the days overdue of the cycle (for a
  payment that is not \<open>FAILED\<close> yet, whose row and billing cycle are in the store, when
  no database call throws).
\<close>

theorem negative_days_overdue_are_classified:
  "(d < 0 \<longrightarrow> getTimeBucket d = B_0_30D)
   \<and> (ref_date < cycle_end \<longrightarrow> overdue_days ref_date cycle_end = 0)
   \<and> (status payment0 \<noteq> FAILED \<and> True \<notin> set (db_faults w)
        \<and> find (\<lambda>p. payment_id p = payment_id payment0) (payments w) = Some p
        \<and> billing_cycle_id p = Some cycle \<and> cycle \<noteq> []
        \<and> find (\<lambda>x. cycle_id x = cycle) (billing_cycles w) = Some b
        \<and> (case ref_date_arg of None \<Rightarrow> now w | Some r \<Rightarrow> r) < end_date b
      \<longrightarrow> find (\<lambda>x. cycle_id x = cycle)
            (billing_cycles (snd (handle_failed_pull_funds sc payment0 code ref_date_arg w)))
          = Some (b\<lparr>cycle_days_overdue := Some 0\<rparr>))"
proof (intro conjI impI)
  assume "d < 0"
  then show "getTimeBucket d = B_0_30D" by (simp add: getTimeBucket_def)
next
  assume "ref_date < cycle_end"
  then have "(ref_date - cycle_end) div 86400000 < 0" by simp
  then show "overdue_days ref_date cycle_end = 0" by (simp add: overdue_days_def)
next
  assume a: "status payment0 \<noteq> FAILED \<and> True \<notin> set (db_faults w)
        \<and> find (\<lambda>p. payment_id p = payment_id payment0) (payments w) = Some p
        \<and> billing_cycle_id p = Some cycle \<and> cycle \<noteq> []
        \<and> find (\<lambda>x. cycle_id x = cycle) (billing_cycles w) = Some b
        \<and> (case ref_date_arg of None \<Rightarrow> now w | Some r \<Rightarrow> r) < end_date b"
  define r where "r = (case ref_date_arg of None \<Rightarrow> now w | Some r \<Rightarrow> r)"
  from a have "r < end_date b" unfolding r_def by blast
  then have "(r - end_date b) div 86400000 < 0" by simp
  then have "overdue_days r (end_date b) = 0" by (simp add: overdue_days_def)
  then have "overdue_days (case ref_date_arg of None \<Rightarrow> now w | Some r \<Rightarrow> r) (end_date b) = 0"
    by (simp add: r_def)
  moreover have "find (\<lambda>x. cycle_id x = cycle)
      (billing_cycles (snd (handle_failed_pull_funds sc payment0 code ref_date_arg w)))
    = Some (b\<lparr>cycle_days_overdue :=
         Some (overdue_days (case ref_date_arg of None \<Rightarrow> now w | Some d \<Rightarrow> d) (end_date b))\<rparr>)"
  proof (rule handle_failed_pull_funds_stores_days_overdue)
    show "status payment0 \<noteq> FAILED" using a by blast
    show "True \<notin> set (db_faults w)" using a by blast
    show "find (\<lambda>p. payment_id p = payment_id payment0) (payments w) = Some p" using a by blast
    show "billing_cycle_id p = Some cycle" using a by blast
    show "cycle \<noteq> []" using a by blast
    show "find (\<lambda>x. cycle_id x = cycle) (billing_cycles w) = Some b" using a by blast
  qed
  ultimately show "find (\<lambda>x. cycle_id x = cycle)
      (billing_cycles (snd (handle_failed_pull_funds sc payment0 code ref_date_arg w)))
    = Some (b\<lparr>cycle_days_overdue := Some 0\<rparr>)"
    by simp
qed

text \<open>
  The hypotheses hold for -5 days overdue; for a reference date of 2025-01-01 with a
  billing cycle that ends on 2025-01-31; and for the due payment with the reference
  date 2024-12-31, one day before the end of its billing cycle: the cycle was recorded
  with 7 days overdue and is stored with 0.
\<close>

theorem negative_days_overdue_witness:
  "(- 5 :: int) < 0 \<and> getTimeBucket (- 5) = B_0_30D
   \<and> (1735689600000 :: int) < 1738281600000
   \<and> overdue_days 1735689600000 1738281600000 = 0
   \<and> status due_payment \<noteq> FAILED
   \<and> map cycle_days_overdue (billing_cycles due_world) = [Some 7]
   \<and> find (\<lambda>x. cycle_id x = ''bc_1'')
        (billing_cycles
          (snd (handle_failed_pull_funds sample_codes due_payment 701 (Some 1735603200000)
                  due_world)))
      = Some \<lparr>cycle_id = ''bc_1'', end_date = 1735689600000, cycle_days_overdue = Some 0\<rparr>"
proof -
  have h: "status due_payment \<noteq> FAILED \<and> True \<notin> set (db_faults due_world)
      \<and> find (\<lambda>p. payment_id p = payment_id due_payment) (payments due_world) = Some due_payment
      \<and> billing_cycle_id due_payment = Some ''bc_1'' \<and> ''bc_1'' \<noteq> []
      \<and> find (\<lambda>x. cycle_id x = ''bc_1'') (billing_cycles due_world)
          = Some \<lparr>cycle_id = ''bc_1'', end_date = 1735689600000, cycle_days_overdue = Some 7\<rparr>
      \<and> (case Some 1735603200000 of None \<Rightarrow> now due_world | Some r \<Rightarrow> r)
          < end_date \<lparr>cycle_id = ''bc_1'', end_date = 1735689600000, cycle_days_overdue = Some 7\<rparr>"
    by (simp add: due_payment_def due_world_def sample_payment_def sample_world_def)
  have m: "map cycle_days_overdue (billing_cycles due_world) = [Some 7]"
    by (simp add: due_world_def sample_world_def)
  from negative_days_overdue_are_classified
    [where d = "- 5" and ref_date = 1735689600000 and cycle_end = 1738281600000
       and ?payment0.0 = due_payment and w = due_world and p = due_payment
       and cycle = "''bc_1''"
       and b = "\<lparr>cycle_id = ''bc_1'', end_date = 1735689600000, cycle_days_overdue = Some 7\<rparr>"
       and ref_date_arg = "Some 1735603200000" and sc = sample_codes and code = 701]
    h m
  show ?thesis by simp
qed

text \<open>
  C7 as stated fails: -1 days overdue is classified into the bucket 0-30D, and the
  resolution of a payment with code 904 and -1 days overdue is an instant retry.
\<close>

theorem negative_days_overdue_counterexample:
  "getTimeBucket (- 1) = B_0_30D
   \<and> yields (sample_payment 904 0) (sample_world 904 0 (- 1)) (Rule_Instant, Some UseCard)"
proof -
  have r: "resolve_action 904 (getTimeBucket (- 1)) (retry_sequence_nb (sample_payment 904 0))
      = Some instant"
    by (simp add: resolve_action_def getRetryAction_def getTimeBucket_def NOT_POSSIBLE_CODES_def)
  have "created_for instant (Some UseCard) (sample_payment 904 0) (sample_world 904 0 (- 1))
      (handle_retry (sample_payment 904 0) (sample_world 904 0 (- 1)))"
    by (rule yields_created [OF sample_cycle_read r _ sample_no_faults])
      (simp_all add: retryTrack_def)
  then show ?thesis by (simp add: yields_def getTimeBucket_def)
qed

section \<open>The two claims the code does not meet\<close>

lemma handle_failed_pull_funds_already_failed:
  assumes "status payment = FAILED"
  shows "handle_failed_pull_funds sc payment c r w
    = (Inr payment,
       logger (Warn ''Payment already in FAILED status, skipping'')
         (logger (Info ''Handling Failed PULL funds'') w))"
  using assms by (simp add: handle_failed_pull_funds_def Let_def)

text \<open>
  C2 fails on the code. The sample payment is already \<open>FAILED\<close>, with code 904 and 0
  days overdue. \<open>handle_failed_pull_funds\<close> skips it, and \<open>handle_retry\<close> then creates a
  successor at every invocation: after the failure branch of \<open>pull_funds\<close> has run
  twice, the store holds two payments that reference \<open>pay_1\<close>, and the second
  invocation returned another payment than the first.
\<close>

theorem second_invocation_creates_second_successor:
  "status (sample_payment 904 0) = FAILED
   \<and> payment_id (fst (pull_funds_failure sample_codes (sample_payment 904 0) 904 None
        (sample_world 904 0 0))) = ''payment-1''
   \<and> payment_id (fst (pull_funds_failure sample_codes (sample_payment 904 0) 904 None
        (snd (pull_funds_failure sample_codes (sample_payment 904 0) 904 None
           (sample_world 904 0 0))))) = ''payment-2''
   \<and> map retry_prev_payment_id
        (payments (snd (pull_funds_failure sample_codes (sample_payment 904 0) 904 None
           (snd (pull_funds_failure sample_codes (sample_payment 904 0) 904 None
              (sample_world 904 0 0))))))
       = [None, Some ''pay_1'', Some ''pay_1'']"
  by code_simp

text \<open>
  C9 fails on the code. For \<open>from\<close> = Friday 2025-01-31, 00:00, the last Friday of
  January is \<open>from\<close> itself; \<open>setMonth(getMonth() + 1)\<close> on the 31st gives the 31st day
  after the end of January, which lies in March, so \<open>getLastFridayOfMonth\<close> returns the
  last Friday of March (2025-03-28) and not that of February (2025-02-28). The result
  is after \<open>from\<close>, as \<open>getLastFridayOfMonth_later\<close> shows for every date.
\<close>

theorem last_friday_skips_february:
  "getFullYear 1738281600000 = 2025 \<and> getMonth 1738281600000 = 0
   \<and> getDate 1738281600000 = 31
   \<and> getLastFridayOfMonthForDate 2025 0 = 1738281600000
   \<and> getLastFridayOfMonthForDate 2025 1 = 1740700800000
   \<and> getLastFridayOfMonthForDate 2025 2 = 1743120000000
   \<and> getLastFridayOfMonth 1738281600000 = 1743120000000"
  by code_simp

end
